theory Spec2Isabelle
  imports Complex_Main "HOL-Library.Sublist" "HOL-Library.Word"
begin

section \<open>The platform the program runs on\<close>

text \<open>
  \<^verbatim>\<open>main.go\<close> talks to three outside parties: the OpenGL driver (package \<^verbatim>\<open>gl\<close>), the
  window system (package \<^verbatim>\<open>glfw\<close>) and the matrix package \<^verbatim>\<open>glam\<close>. None of them is part of
  the repository. The model keeps every call the program makes to them, in order, in a
  trace, and takes every answer the program reads back from them from an environment
  record. Matrices built by \<^verbatim>\<open>glam\<close> stay symbolic: the constructor and the arguments
  the program passed.
\<close>

subsection \<open>Enumerations of the OpenGL and GLFW bindings\<close>

datatype GLenum =
    ARRAY_BUFFER | ELEMENT_ARRAY_BUFFER | STATIC_DRAW
  | TEXTURE0 | TEXTURE1 | TEXTURE_2D | RGBA | UNSIGNED_BYTE | UNSIGNED_SHORT | FLOAT
  | TEXTURE_MIN_FILTER | TEXTURE_MAG_FILTER | LINEAR
  | VERTEX_SHADER | FRAGMENT_SHADER | COMPILE_STATUS
  | TRIANGLE_STRIP | COLOR_BUFFER_BIT

text \<open>The numeric values of the enumerators, as the OpenGL headers fix them.\<close>

fun GLenum_value :: "GLenum \<Rightarrow> nat" where
  "GLenum_value ARRAY_BUFFER = 0x8892"
| "GLenum_value ELEMENT_ARRAY_BUFFER = 0x8893"
| "GLenum_value STATIC_DRAW = 0x88E4"
| "GLenum_value TEXTURE0 = 0x84C0"
| "GLenum_value TEXTURE1 = 0x84C1"
| "GLenum_value TEXTURE_2D = 0x0DE1"
| "GLenum_value RGBA = 0x1908"
| "GLenum_value UNSIGNED_BYTE = 0x1401"
| "GLenum_value UNSIGNED_SHORT = 0x1403"
| "GLenum_value FLOAT = 0x1406"
| "GLenum_value TEXTURE_MIN_FILTER = 0x2801"
| "GLenum_value TEXTURE_MAG_FILTER = 0x2800"
| "GLenum_value LINEAR = 0x2601"
| "GLenum_value VERTEX_SHADER = 0x8B31"
| "GLenum_value FRAGMENT_SHADER = 0x8B30"
| "GLenum_value COMPILE_STATUS = 0x8B81"
| "GLenum_value TRIANGLE_STRIP = 0x0005"
| "GLenum_value COLOR_BUFFER_BIT = 0x4000"

datatype Key = KeyEscape | KeyQ | KeyR | KeyOther nat

datatype Action = Release | Press | Repeat

datatype Hint =
  ContextVersionMajor | ContextVersionMinor | OpenglProfile | OpenglForwardCompatible

datatype HintValue = HintInt int | OpenglCoreProfile | GL_TRUE

subsection \<open>Matrices of package glam\<close>

type_synonym Vec3 = "real \<times> real \<times> real"

datatype Mat4 =
    Identity
  | Rotation real Vec3
  | Perspective real real real real
  | LookAt Vec3 Vec3 Vec3

subsection \<open>Images of package image\<close>

type_synonym Rectangle = "int \<times> int \<times> int \<times> int"

fun Dx :: "Rectangle \<Rightarrow> int" where
  "Dx (x0, y0, x1, y1) = x1 - x0"

fun Dy :: "Rectangle \<Rightarrow> int" where
  "Dy (x0, y0, x1, y1) = y1 - y0"

fun Rect :: "int \<Rightarrow> int \<Rightarrow> int \<Rightarrow> int \<Rightarrow> Rectangle" where
  "Rect x0 y0 x1 y1 =
     (let (a, c) = (if x0 > x1 then (x1, x0) else (x0, x1));
          (b, d) = (if y0 > y1 then (y1, y0) else (y0, y1))
      in (a, b, c, d))"

record NRGBA =
  Pix :: "8 word list"
  Bounds :: Rectangle

text \<open>
  What \<^verbatim>\<open>image.Decode\<close> hands back: the bounds of the decoded image, whether its dynamic
  type is \<^verbatim>\<open>*image.NRGBA\<close> (then \<open>own_pix\<close> is its pixel slice), and the pixels that
  \<^verbatim>\<open>draw.Draw\<close> writes into a fresh NRGBA image of the same size otherwise.
\<close>

record Decoded =
  img_bounds :: Rectangle
  is_nrgba :: bool
  own_pix :: "8 word list"
  drawn_pix :: "8 word list"

subsection \<open>Calls made to the outside, and the answers read back\<close>

type_synonym error = string

text \<open>
  The calls are grouped as the bindings group them: functions of package \<^verbatim>\<open>glfw\<close> and
  methods of its window; vertex arrays and buffers; textures; shaders; programs;
  attribute and uniform locations; and the remaining functions of package \<^verbatim>\<open>gl\<close>.
  A call that creates an object carries the name the object got.
\<close>

datatype GlfwCall =
    SetErrorCallback
  | GlfwInit
  | WindowHint Hint HintValue
  | CreateWindow int int string
  | SetKeyCallback
  | MakeContextCurrent
  | Terminate
  | SwapBuffers
  | PollEvents

datatype BufferCall =
    GenVertexArray nat
  | BindVertexArray nat
  | DeleteVertexArray nat
  | GenBuffer nat
  | BindBuffer nat GLenum
  | DeleteBuffer nat
  | BufferDataFloat GLenum int "real list" GLenum
  | BufferDataUshort GLenum int "16 word list" GLenum

datatype TextureCall =
    GenTexture nat
  | ActiveTexture GLenum
  | BindTexture nat GLenum
  | TexImage2D GLenum int GLenum int int int GLenum GLenum "8 word list"
  | TexParameteri GLenum GLenum GLenum
  | DeleteTexture nat

datatype ShaderCall =
    CreateShader GLenum nat
  | ShaderSource nat string
  | CompileShader nat
  | GetShader nat GLenum
  | DeleteShader nat

datatype ProgramCall =
    CreateProgram nat
  | AttachShader nat nat
  | BindFragDataLocation nat int string
  | LinkProgram nat
  | UseProgram nat
  | DeleteProgram nat
  | GetAttribLocation nat string
  | GetUniformLocation nat string

datatype LocationCall =
    AttribPointer int nat GLenum bool int nat
  | EnableArray int
  | Uniform1i int int
  | UniformMatrix4fv int bool Mat4

datatype GlCall =
    GlInit
  | ClearColor real real real real
  | Clear GLenum
  | DrawElements GLenum int GLenum nat

datatype Call =
    Glfw GlfwCall
  | Buf BufferCall
  | Tex TextureCall
  | Sh ShaderCall
  | Prog ProgramCall
  | Loc LocationCall
  | Gl GlCall

text \<open>
  The environment: how the two floating-point formats round, and what the driver, the
  window system, the file system and the image decoder answer. \<open>rnd64\<close> and \<open>rnd32\<close>
  send a real number to the \<^verbatim>\<open>float64\<close> and \<^verbatim>\<open>float32\<close> value that represents it; IEEE 754
  arithmetic is the exact operation followed by that rounding. \<open>link_status\<close> is what
  the driver would answer to a query of the link status of the program.
\<close>

record Env =
  rnd64 :: "real \<Rightarrow> real"
  rnd32 :: "real \<Rightarrow> real"
  glfw_init :: bool
  create_window :: "error option"
  gl_init :: int
  os_open :: "string \<Rightarrow> error option"
  image_decode :: "string \<Rightarrow> error + Decoded"
  compile_status :: "GLenum \<Rightarrow> string \<Rightarrow> int"
  link_status :: bool
  attrib_location :: "string \<Rightarrow> int"
  uniform_location :: "string \<Rightarrow> int"

datatype Event = KeyEvent Key Action | CloseRequest

section \<open>The state of the program\<close>

text \<open>
  \<open>rotate\<close> is the package-level variable; \<open>shouldClose\<close> is the flag of the window;
  \<open>modelMat\<close> and \<open>spinCount\<close> are the locals of \<^verbatim>\<open>main\<close> that live across iterations;
  \<open>trace\<close> lists the calls made so far, oldest first; \<open>deferred\<close> is the stack of
  deferred calls, latest first; \<open>next_name\<close> numbers the objects the driver creates.
\<close>

record State =
  rotate :: bool
  shouldClose :: bool
  modelMat :: Mat4
  spinCount :: real
  trace :: "Call list"
  deferred :: "Call list"
  next_name :: nat

definition emit :: "Call \<Rightarrow> State \<Rightarrow> State" where
  "emit c s = s\<lparr>trace := trace s @ [c]\<rparr>"

definition defer_call :: "Call \<Rightarrow> State \<Rightarrow> State" where
  "defer_call c s = s\<lparr>deferred := c # deferred s\<rparr>"

definition fresh :: "(nat \<Rightarrow> Call) \<Rightarrow> State \<Rightarrow> nat \<times> State" where
  "fresh mk s = (next_name s, (emit (mk (next_name s)) s)\<lparr>next_name := Suc (next_name s)\<rparr>)"

definition run_deferred :: "State \<Rightarrow> State" where
  "run_deferred s = s\<lparr>trace := trace s @ deferred s, deferred := []\<rparr>"

section \<open>Input handling\<close>

text \<open>
  Lines 54 to 63. The callback ignores the scancode and the modifier keys, and the program
  has one window, whose flag it sets.
\<close>

fun keyCallback :: "Key \<Rightarrow> Action \<Rightarrow> State \<Rightarrow> State" where
  "keyCallback key action s =
     (if action = Press then
        (case key of
           KeyEscape \<Rightarrow> s\<lparr>shouldClose := True\<rparr>
         | KeyQ \<Rightarrow> s\<lparr>shouldClose := True\<rparr>
         | KeyR \<Rightarrow> s\<lparr>rotate := \<not> rotate s\<rparr>
         | KeyOther k \<Rightarrow> s)
      else s)"

text \<open>
  \<^verbatim>\<open>glfw.PollEvents\<close> handles the pending events in order: a key event runs the key
  callback, a close request of the window system sets the flag of the window.
\<close>

fun deliver :: "Event \<Rightarrow> State \<Rightarrow> State" where
  "deliver (KeyEvent key action) s = keyCallback key action s"
| "deliver CloseRequest s = s\<lparr>shouldClose := True\<rparr>"

definition pollEvents :: "Event list \<Rightarrow> State \<Rightarrow> State" where
  "pollEvents evs s = fold deliver evs (emit (Glfw PollEvents) s)"

section \<open>The frame loop\<close>

text \<open>
  \<^verbatim>\<open>math.Pi\<close> is an untyped constant of the standard library: \<open>\<pi>\<close> cut after 62 decimal
  places.
\<close>

definition math_Pi :: real where
  "math_Pi = 314159265358979323846264338327950288419716939937510582097494459 / 10 ^ 62"

text \<open>
  Lines 229 to 232. \<^verbatim>\<open>0.0005\<close> and \<^verbatim>\<open>math.Pi\<close> are untyped constants converted to
  \<^verbatim>\<open>float64\<close>; the product is converted to \<^verbatim>\<open>float32\<close> explicitly.
\<close>

definition tick :: "Env \<Rightarrow> State \<Rightarrow> State" where
  "tick e s =
     (if rotate s then
        (let s1 = s\<lparr>modelMat :=
                      Rotation (rnd32 e (rnd64 e (spinCount s * rnd64 e math_Pi))) (0, 0, 1)\<rparr>
         in s1\<lparr>spinCount := rnd64 e (spinCount s1 + rnd64 e (5 / 10000))\<rparr>)
      else s)"

text \<open>One iteration of the loop of \<^verbatim>\<open>main\<close>, lines 225 to 241; \<open>p\<close> is the program object.\<close>

definition frame :: "Env \<Rightarrow> nat \<Rightarrow> Event list \<Rightarrow> State \<Rightarrow> State" where
  "frame e p evs s =
     (let s = emit (Gl (ClearColor 0 0 0 1)) s;
          s = emit (Gl (Clear COLOR_BUFFER_BIT)) s;
          s = tick e s;
          s = emit (Prog (GetUniformLocation p ''model'')) s;
          s = emit (Loc (UniformMatrix4fv (uniform_location e ''model'') False (modelMat s))) s;
          viewMat = LookAt (1, 0, 1) (0, 0, 0) (0, 0, 1);
          s = emit (Prog (GetUniformLocation p ''view'')) s;
          s = emit (Loc (UniformMatrix4fv (uniform_location e ''view'') False viewMat)) s;
          s = emit (Gl (DrawElements TRIANGLE_STRIP 4 UNSIGNED_SHORT 0)) s;
          s = emit (Glfw SwapBuffers) s
      in pollEvents evs s)"

text \<open>
  The loop \<^verbatim>\<open>for !window.ShouldClose() { ... }\<close>. Each iteration polls once; \<open>polls\<close> gives,
  iteration by iteration, the events pending at that poll. The loop has no bound of its
  own: when the recorded polls run out while the window is still open the result is
  \<open>None\<close>, and \<open>Some\<close> is the state at loop exit.
\<close>

fun frame_loop :: "Env \<Rightarrow> nat \<Rightarrow> Event list list \<Rightarrow> State \<Rightarrow> State option" where
  "frame_loop e p [] s = (if shouldClose s then Some s else None)"
| "frame_loop e p (evs # polls) s =
     (if shouldClose s then Some s else frame_loop e p polls (frame e p evs s))"

section \<open>Start-up\<close>

subsection \<open>The constants of the program\<close>

definition nl :: string where
  "nl = [CHR 0x0A]"

definition tab :: string where
  "tab = [CHR 0x09]"

definition vertex_shader :: string where
  "vertex_shader = concat
     [nl, tab, ''#version 150'', nl,
      nl, tab, ''in vec2 position;'',
      nl, tab, ''in vec2 textureCoord;'',
      nl, tab, ''out vec2 TextureCoord;'',
      nl, tab, ''uniform mat4 model;'',
      nl, tab, ''uniform mat4 view;'',
      nl, tab, ''uniform mat4 projection;'', nl,
      nl, tab, ''void main()'',
      nl, tab, ''{'',
      nl, tab, ''    TextureCoord = textureCoord;'',
      nl, tab, ''    gl_Position = projection * view * model * vec4(position, 0.0, 1.0);'',
      nl, tab, ''}'',
      nl, tab]"

definition fragment_shader :: string where
  "fragment_shader = concat
     [nl, tab, ''#version 150'', nl,
      nl, tab, ''out vec4 outColor;'',
      nl, tab, ''in vec2 TextureCoord;'',
      nl, tab, ''uniform sampler2D tex1;'',
      nl, tab, ''uniform sampler2D tex2;'', nl,
      nl, tab, ''void main()'',
      nl, tab, ''{'',
      nl, tab, ''    outColor = texture(tex1, TextureCoord);'',
      nl, tab, ''}'',
      nl]"

text \<open>
  Line 153 and 154. The components are \<^verbatim>\<open>float32\<close> constants; halves and small integers
  are representable exactly in a binary format, so they are written as themselves.
\<close>

definition vertices :: "real list" where
  "vertices = [- 0.5, - 0.5, 0, 1, 0.5, - 0.5, 1, 1, - 0.5, 0.5, 0, 0, 0.5, 0.5, 1, 0]"

definition elements :: "16 word list" where
  "elements = [0, 1, 2, 3]"

text \<open>
  The state when \<^verbatim>\<open>main\<close> starts: \<^verbatim>\<open>var rotate bool = true\<close>, nothing called and nothing
  deferred yet. \<open>modelMat\<close> and \<open>spinCount\<close> are declared later, on lines 218 and 222,
  where the model assigns them.
\<close>

definition init_state :: State where
  "init_state =
     \<lparr>rotate = True, shouldClose = False, modelMat = Identity, spinCount = 0,
      trace = [], deferred = [], next_name = 1\<rparr>"

subsection \<open>glInit\<close>

definition glInit :: "Env \<Rightarrow> State \<Rightarrow> error option \<times> State" where
  "glInit e s =
     (let s = emit (Glfw SetErrorCallback) s;
          s = emit (Glfw GlfwInit) s
      in if \<not> glfw_init e then (Some (''Can'' @ [CHR 0x27] @ ''t initialise GLFW!''), s)
         else
           (let s = emit (Glfw (WindowHint ContextVersionMajor (HintInt 3))) s;
                s = emit (Glfw (WindowHint ContextVersionMinor (HintInt 2))) s;
                s = emit (Glfw (WindowHint OpenglProfile OpenglCoreProfile)) s;
                s = emit (Glfw (WindowHint OpenglForwardCompatible GL_TRUE)) s;
                s = emit (Glfw (CreateWindow 640 480 ''OpenGL Textures'')) s
            in case create_window e of
                 Some err \<Rightarrow> (Some err, s)
               | None \<Rightarrow>
                   (let s = emit (Glfw SetKeyCallback) s;
                        s = emit (Glfw MakeContextCurrent) s;
                        s = emit (Gl GlInit) s
                    in if gl_init e \<noteq> 0
                       then (Some (''Can'' @ [CHR 0x27] @ ''t initialise OpenGL.''), s)
                       else (None, s))))"

subsection \<open>loadShader\<close>

text \<open>\<^verbatim>\<open>%v\<close> prints a string as it is.\<close>

definition loadShader ::
  "Env \<Rightarrow> GLenum \<Rightarrow> string \<Rightarrow> State \<Rightarrow> (nat \<times> error option) \<times> State" where
  "loadShader e shaderType source s =
     (let (shader, s) = fresh (\<lambda>n. Sh (CreateShader shaderType n)) s;
          s = emit (Sh (ShaderSource shader source)) s;
          s = emit (Sh (CompileShader shader)) s;
          s = emit (Sh (GetShader shader COMPILE_STATUS)) s
      in if compile_status e shaderType source = 0
         then ((shader, Some (''Shader ('' @ source @ '') did not compile.'')), s)
         else ((shader, None), s))"

subsection \<open>loadImage and loadTextureFromImage\<close>

text \<open>
  Lines 77 to 99. Opening the file and decoding it are answered by the environment; the
  deferred close of the file is no call to the driver or the window system and leaves no
  mark in the trace.
\<close>

definition loadImage :: "Env \<Rightarrow> string \<Rightarrow> error + NRGBA" where
  "loadImage e filename =
     (case os_open e filename of
        Some err \<Rightarrow> Inl err
      | None \<Rightarrow>
          (case image_decode e filename of
             Inl err \<Rightarrow> Inl err
           | Inr img \<Rightarrow>
               (let bounds = img_bounds img;
                    width = Dx bounds;
                    height = Dy bounds
                in if is_nrgba img
                   then Inr \<lparr>Pix = own_pix img, Bounds = bounds\<rparr>
                   else Inr \<lparr>Pix = drawn_pix img, Bounds = Rect 0 0 width height\<rparr>)))"

definition loadTextureFromImage ::
  "Env \<Rightarrow> string \<Rightarrow> GLenum \<Rightarrow> State \<Rightarrow> (nat \<times> error option) \<times> State" where
  "loadTextureFromImage e filename texture_id s =
     (let (texture, s) = fresh (\<lambda>n. Tex (GenTexture n)) s
      in case loadImage e filename of
           Inl err \<Rightarrow> ((texture, Some err), s)
         | Inr img \<Rightarrow>
             (let dims = Bounds img;
                  s = emit (Tex (ActiveTexture texture_id)) s;
                  s = emit (Tex (BindTexture texture TEXTURE_2D)) s;
                  s = emit (Tex (TexImage2D TEXTURE_2D 0 RGBA (Dx dims) (Dy dims) 0
                                   RGBA UNSIGNED_BYTE (Pix img))) s
              in ((texture, None), s)))"

subsection \<open>main\<close>

text \<open>
  \<^verbatim>\<open>main\<close> either panics with an error or returns; both run the deferred calls, latest
  first, and the outcome carries the final state with the complete trace.
\<close>

datatype Outcome = Panicked error State | Returned State

definition panic :: "error \<Rightarrow> State \<Rightarrow> Outcome" where
  "panic err s = Panicked err (run_deferred s)"

text \<open>Lines 153 to 167: the vertex array and the two buffers.\<close>

definition upload_geometry :: "State \<Rightarrow> State" where
  "upload_geometry s =
     (let (vao, s) = fresh (\<lambda>n. Buf (GenVertexArray n)) s;
          s = emit (Buf (BindVertexArray vao)) s;
          (vbo, s) = fresh (\<lambda>n. Buf (GenBuffer n)) s;
          s = emit (Buf (BindBuffer vbo ARRAY_BUFFER)) s;
          s = emit (Buf (BufferDataFloat ARRAY_BUFFER (int (length vertices) * 4)
                           vertices STATIC_DRAW)) s;
          (elementBuffer, s) = fresh (\<lambda>n. Buf (GenBuffer n)) s;
          s = emit (Buf (BindBuffer elementBuffer ELEMENT_ARRAY_BUFFER)) s;
          s = emit (Buf (BufferDataUshort ELEMENT_ARRAY_BUFFER (int (length elements) * 2)
                           elements STATIC_DRAW)) s;
          s = defer_call (Buf (DeleteVertexArray vao)) s;
          s = defer_call (Buf (DeleteBuffer vbo)) s
      in defer_call (Buf (DeleteBuffer elementBuffer)) s)"

text \<open>Lines 169 to 183: the two textures.\<close>

definition load_textures :: "Env \<Rightarrow> State \<Rightarrow> error option \<times> State" where
  "load_textures e s =
     (case loadTextureFromImage e ''sloth_n_banana.jpg'' TEXTURE0 s of
        ((texture1, Some err), s) \<Rightarrow> (Some err, s)
      | ((texture1, None), s) \<Rightarrow>
          (let s = defer_call (Tex (DeleteTexture texture1)) s;
               s = emit (Tex (TexParameteri TEXTURE_2D TEXTURE_MIN_FILTER LINEAR)) s;
               s = emit (Tex (TexParameteri TEXTURE_2D TEXTURE_MAG_FILTER LINEAR)) s
           in case loadTextureFromImage e ''sloth_n_kebab.jpg'' TEXTURE1 s of
                ((texture2, Some err), s) \<Rightarrow> (Some err, s)
              | ((texture2, None), s) \<Rightarrow>
                  (let s = defer_call (Tex (DeleteTexture texture2)) s;
                       s = emit (Tex (TexParameteri TEXTURE_2D TEXTURE_MIN_FILTER LINEAR)) s;
                       s = emit (Tex (TexParameteri TEXTURE_2D TEXTURE_MAG_FILTER LINEAR)) s
                   in (None, s))))"

text \<open>Lines 185 to 195: the two shaders; the result names them when both compiled.\<close>

definition load_shaders :: "Env \<Rightarrow> State \<Rightarrow> (error + nat \<times> nat) \<times> State" where
  "load_shaders e s =
     (case loadShader e VERTEX_SHADER vertex_shader s of
        ((vertexShader, Some err), s) \<Rightarrow> (Inl err, s)
      | ((vertexShader, None), s) \<Rightarrow>
          (let s = defer_call (Sh (DeleteShader vertexShader)) s
           in case loadShader e FRAGMENT_SHADER fragment_shader s of
                ((fragmentShader, Some err), s) \<Rightarrow> (Inl err, s)
              | ((fragmentShader, None), s) \<Rightarrow>
                  (let s = defer_call (Sh (DeleteShader fragmentShader)) s
                   in (Inr (vertexShader, fragmentShader), s))))"

text \<open>
  Lines 197 to 203: the program. Nothing is read back from the driver between
  \<^verbatim>\<open>Link\<close> and \<^verbatim>\<open>Use\<close>.
\<close>

definition link_program :: "nat \<Rightarrow> nat \<Rightarrow> State \<Rightarrow> nat \<times> State" where
  "link_program vertexShader fragmentShader s =
     (let (shaderProgram, s) = fresh (\<lambda>n. Prog (CreateProgram n)) s;
          s = emit (Prog (AttachShader shaderProgram vertexShader)) s;
          s = emit (Prog (AttachShader shaderProgram fragmentShader)) s;
          s = emit (Prog (BindFragDataLocation shaderProgram 0 ''outColor'')) s;
          s = emit (Prog (LinkProgram shaderProgram)) s;
          s = emit (Prog (UseProgram shaderProgram)) s
      in (shaderProgram, defer_call (Prog (DeleteProgram shaderProgram)) s))"

text \<open>Lines 205 to 214: the vertex layout and the two samplers.\<close>

definition bind_inputs :: "Env \<Rightarrow> nat \<Rightarrow> State \<Rightarrow> State" where
  "bind_inputs e shaderProgram s =
     (let s = emit (Prog (GetAttribLocation shaderProgram ''position'')) s;
          positionAttrib = attrib_location e ''position'';
          s = emit (Loc (AttribPointer positionAttrib 2 FLOAT False (4 * 4) 0)) s;
          s = emit (Loc (EnableArray positionAttrib)) s;
          s = emit (Prog (GetAttribLocation shaderProgram ''textureCoord'')) s;
          textureCorrdAttrib = attrib_location e ''textureCoord'';
          s = emit (Loc (AttribPointer textureCorrdAttrib 2 FLOAT False (4 * 4) (2 * 4))) s;
          s = emit (Loc (EnableArray textureCorrdAttrib)) s;
          s = emit (Prog (GetUniformLocation shaderProgram ''tex1'')) s;
          s = emit (Loc (Uniform1i (uniform_location e ''tex1'') 0)) s;
          s = emit (Prog (GetUniformLocation shaderProgram ''tex2'')) s
      in emit (Loc (Uniform1i (uniform_location e ''tex2'') 1)) s)"

text \<open>
  Line 219. \<^verbatim>\<open>640/480\<close> is a quotient of two untyped integer constants, so Go divides
  them as integers before the result is converted to a floating-point argument.
\<close>

definition projectionMat :: Mat4 where
  "projectionMat = Perspective 45 (real_of_int (640 div 480)) 1 10"

text \<open>Lines 218 to 222.\<close>

definition init_transforms :: "Env \<Rightarrow> nat \<Rightarrow> State \<Rightarrow> State" where
  "init_transforms e shaderProgram s =
     (let s = s\<lparr>modelMat := Identity\<rparr>;
          s = emit (Prog (GetUniformLocation shaderProgram ''projection'')) s;
          s = emit (Loc (UniformMatrix4fv (uniform_location e ''projection'') False
                           projectionMat)) s
      in s\<lparr>spinCount := 0\<rparr>)"

text \<open>
  Everything before the loop, lines 147 to 222: an error to panic with, or the program
  object; and the state reached.
\<close>

definition startup :: "Env \<Rightarrow> (error + nat) \<times> State" where
  "startup e =
     (case glInit e init_state of
        (Some err, s) \<Rightarrow> (Inl err, s)
      | (None, s) \<Rightarrow>
          (let s = defer_call (Glfw Terminate) s;
               s = upload_geometry s
           in case load_textures e s of
                (Some err, s) \<Rightarrow> (Inl err, s)
              | (None, s) \<Rightarrow>
                  (case load_shaders e s of
                     (Inl err, s) \<Rightarrow> (Inl err, s)
                   | (Inr (vertexShader, fragmentShader), s) \<Rightarrow>
                       (let (shaderProgram, s) = link_program vertexShader fragmentShader s;
                            s = bind_inputs e shaderProgram s
                        in (Inr shaderProgram, init_transforms e shaderProgram s)))))"

text \<open>
  \<open>main e polls\<close> is \<open>None\<close> when the recorded polls run out while the loop is still
  running, and the outcome of \<^verbatim>\<open>main\<close> otherwise.
\<close>

definition main :: "Env \<Rightarrow> Event list list \<Rightarrow> Outcome option" where
  "main e polls =
     (case startup e of
        (Inl err, s) \<Rightarrow> Some (panic err s)
      | (Inr shaderProgram, s) \<Rightarrow>
          map_option (\<lambda>s. Returned (run_deferred s)) (frame_loop e shaderProgram polls s))"

section \<open>Notions used to state the properties\<close>

text \<open>
  The iterations of the loop body over a list of polls, without the test of the loop:
  the states the loop passes through are among these.
\<close>

definition frames :: "Env \<Rightarrow> nat \<Rightarrow> Event list list \<Rightarrow> State \<Rightarrow> State" where
  "frames e p polls s = fold (frame e p) polls s"

text \<open>How many of these iterations found \<open>rotate\<close> set when they started.\<close>

fun enabled_frames :: "Env \<Rightarrow> nat \<Rightarrow> Event list list \<Rightarrow> State \<Rightarrow> nat" where
  "enabled_frames e p [] s = 0"
| "enabled_frames e p (evs # polls) s =
     (if rotate s then 1 else 0) + enabled_frames e p polls (frame e p evs s)"

text \<open>An event that sets the flag of the window: a press of Escape or Q, or a close request.\<close>

fun requests_close :: "Event \<Rightarrow> bool" where
  "requests_close (KeyEvent key action) = (action = Press \<and> (key = KeyEscape \<or> key = KeyQ))"
| "requests_close CloseRequest = True"

fun is_draw :: "Call \<Rightarrow> bool" where
  "is_draw (Gl (DrawElements mode n ty off)) = True"
| "is_draw c = False"

definition draw_calls :: "Call list \<Rightarrow> nat" where
  "draw_calls tr = length (filter is_draw tr)"

text \<open>
  A rounding function is within \<open>eps\<close> on the range \<open>B\<close> when it moves no number of
  magnitude at most \<open>B\<close> by more than \<open>eps\<close>. Rounding to nearest in \<^verbatim>\<open>float64\<close> is within
  \<open>2 ^ -53\<close> on the range \<open>2\<close> and within \<open>2 ^ -52\<close> on the range \<open>4\<close>; in \<^verbatim>\<open>float32\<close>
  it is within \<open>2 ^ -23\<close> on the range \<open>4\<close>.
\<close>

definition rounds_within :: "(real \<Rightarrow> real) \<Rightarrow> real \<Rightarrow> real \<Rightarrow> bool" where
  "rounds_within r B eps \<longleftrightarrow> (\<forall>x. \<bar>x\<bar> \<le> B \<longrightarrow> \<bar>r x - x\<bar> \<le> eps)"

text \<open>
  The interleaved vertex format of lines 206 and 210: two position components, then two
  texture coordinates, four floats in all for each vertex.
\<close>

fun interleaved :: "real list \<Rightarrow> ((real \<times> real) \<times> (real \<times> real)) list" where
  "interleaved (x # y # u # v # rest) = ((x, y), (u, v)) # interleaved rest"
| "interleaved rest = []"

fun sizeof :: "GLenum \<Rightarrow> int" where
  "sizeof FLOAT = 4"
| "sizeof UNSIGNED_SHORT = 2"
| "sizeof UNSIGNED_BYTE = 1"
| "sizeof ty = 0"

text \<open>How \<^verbatim>\<open>%v\<close> prints an unsigned integer: in decimal.\<close>

function decimal :: "nat \<Rightarrow> string" where
  "decimal n =
     (if n < 10 then [''0123456789'' ! n]
      else decimal (n div 10) @ [''0123456789'' ! (n mod 10)])"
  by pat_completeness auto
termination
  by (relation "measure id") auto

declare decimal.simps [simp del]

subsection \<open>A sample platform\<close>

text \<open>
  A platform on which every step succeeds and arithmetic is exact, and a decoded image of
  two pixels; the properties below are instantiated on them.
\<close>

definition sample_image :: Decoded where
  "sample_image =
     \<lparr>img_bounds = (0, 0, 2, 1), is_nrgba = True,
      own_pix = [255, 0, 0, 255, 0, 255, 0, 255], drawn_pix = []\<rparr>"

definition ideal_env :: Env where
  "ideal_env =
     \<lparr>rnd64 = (\<lambda>x. x), rnd32 = (\<lambda>x. x),
      glfw_init = True, create_window = None, gl_init = 0,
      os_open = (\<lambda>filename. None),
      image_decode = (\<lambda>filename. Inr sample_image),
      compile_status = (\<lambda>shaderType source. 1),
      link_status = True,
      attrib_location =
        (\<lambda>name. if name = ''position'' then 0 else if name = ''textureCoord'' then 1 else - 1),
      uniform_location =
        (\<lambda>name. if name = ''model'' then 0 else if name = ''view'' then 1
                else if name = ''projection'' then 2 else if name = ''tex1'' then 3 else - 1)\<rparr>"

text \<open>The same platform with a driver that rejects every shader.\<close>

definition no_compile_env :: Env where
  "no_compile_env = ideal_env\<lparr>compile_status := (\<lambda>shaderType source. 0)\<rparr>"

text \<open>The same platform with a driver on which the program does not link.\<close>

definition no_link_env :: Env where
  "no_link_env = ideal_env\<lparr>link_status := False\<rparr>"

text \<open>
  The same platform with arithmetic that does round: to the nearest multiple of
  \<open>2 ^ -52\<close> in \<^verbatim>\<open>float64\<close> and of \<open>2 ^ -23\<close> in \<^verbatim>\<open>float32\<close>, the spacing of the two
  formats between 1 and 2.
\<close>

definition grid :: "nat \<Rightarrow> real \<Rightarrow> real" where
  "grid k x = real_of_int (round (x * 2 ^ k)) / 2 ^ k"

definition grid_env :: Env where
  "grid_env = ideal_env\<lparr>rnd64 := grid 52, rnd32 := grid 23\<rparr>"

section \<open>Auxiliary facts\<close>

subsection \<open>Fields of the state after each primitive\<close>

lemma emit_fields [simp]:
  "trace (emit c s) = trace s @ [c]"
  "rotate (emit c s) = rotate s"
  "shouldClose (emit c s) = shouldClose s"
  "modelMat (emit c s) = modelMat s"
  "spinCount (emit c s) = spinCount s"
  "deferred (emit c s) = deferred s"
  "next_name (emit c s) = next_name s"
  by (simp_all add: emit_def)

lemma defer_call_fields [simp]:
  "trace (defer_call c s) = trace s"
  "rotate (defer_call c s) = rotate s"
  "shouldClose (defer_call c s) = shouldClose s"
  "modelMat (defer_call c s) = modelMat s"
  "spinCount (defer_call c s) = spinCount s"
  "deferred (defer_call c s) = c # deferred s"
  "next_name (defer_call c s) = next_name s"
  by (simp_all add: defer_call_def)

lemma fresh_fields [simp]:
  "fst (fresh mk s) = next_name s"
  "trace (snd (fresh mk s)) = trace s @ [mk (next_name s)]"
  "rotate (snd (fresh mk s)) = rotate s"
  "shouldClose (snd (fresh mk s)) = shouldClose s"
  "modelMat (snd (fresh mk s)) = modelMat s"
  "spinCount (snd (fresh mk s)) = spinCount s"
  "deferred (snd (fresh mk s)) = deferred s"
  "next_name (snd (fresh mk s)) = Suc (next_name s)"
  by (simp_all add: fresh_def)

lemma run_deferred_fields [simp]:
  "trace (run_deferred s) = trace s @ deferred s"
  "rotate (run_deferred s) = rotate s"
  "shouldClose (run_deferred s) = shouldClose s"
  "modelMat (run_deferred s) = modelMat s"
  "spinCount (run_deferred s) = spinCount s"
  "deferred (run_deferred s) = []"
  by (simp_all add: run_deferred_def)

lemma tick_fields [simp]:
  "trace (tick e s) = trace s"
  "rotate (tick e s) = rotate s"
  "shouldClose (tick e s) = shouldClose s"
  "deferred (tick e s) = deferred s"
  "next_name (tick e s) = next_name s"
  by (simp_all add: tick_def Let_def)

lemma deliver_fields [simp]:
  "trace (deliver ev s) = trace s"
  "modelMat (deliver ev s) = modelMat s"
  "spinCount (deliver ev s) = spinCount s"
  "deferred (deliver ev s) = deferred s"
  "next_name (deliver ev s) = next_name s"
  by (cases ev; simp split: Key.split)+

lemma fold_deliver_fields [simp]:
  "trace (fold deliver evs s) = trace s"
  "modelMat (fold deliver evs s) = modelMat s"
  "spinCount (fold deliver evs s) = spinCount s"
  "deferred (fold deliver evs s) = deferred s"
  "next_name (fold deliver evs s) = next_name s"
  by (induction evs arbitrary: s; simp)+

lemma fold_deliver_shouldClose:
  "shouldClose (fold deliver evs s) = (shouldClose s \<or> (\<exists>ev\<in>set evs. requests_close ev))"
proof (induction evs arbitrary: s)
  case Nil
  then show ?case by simp
next
  case (Cons ev evs)
  show ?case
    by (cases ev) (auto simp: Cons.IH split: Key.splits)
qed

lemma pollEvents_fields [simp]:
  "trace (pollEvents evs s) = trace s @ [Glfw PollEvents]"
  "modelMat (pollEvents evs s) = modelMat s"
  "spinCount (pollEvents evs s) = spinCount s"
  "deferred (pollEvents evs s) = deferred s"
  "next_name (pollEvents evs s) = next_name s"
  by (simp_all add: pollEvents_def)

subsection \<open>The tick\<close>

lemma tick_pow_rotate [simp]: "rotate ((tick e ^^ n) s) = rotate s"
  by (induction n) simp_all

lemma tick_spin_enabled:
  "rotate s \<Longrightarrow> spinCount (tick e s) = rnd64 e (spinCount s + rnd64 e (5 / 10000))"
  by (simp add: tick_def Let_def)

lemma tick_disabled: "\<not> rotate s \<Longrightarrow> tick e s = s"
  by (simp add: tick_def)

lemma tick_pow_disabled: "\<not> rotate s \<Longrightarrow> (tick e ^^ n) s = s"
  by (induction n) (simp_all add: tick_disabled)

lemma tick_pow_spin_cong:
  assumes "rotate a" and "rotate b" and "spinCount a = spinCount b"
  shows "spinCount ((tick e ^^ n) a) = spinCount ((tick e ^^ n) b)"
  using assms by (induction n) (simp_all add: tick_spin_enabled)

subsection \<open>Rounding errors\<close>

lemma rounds_within_ideal:
  "rounds_within (rnd64 ideal_env) B 0" "rounds_within (rnd32 ideal_env) B 0"
  by (simp_all add: rounds_within_def ideal_env_def)

lemma grid_within: "rounds_within (grid k) B (1 / 2 ^ Suc k)"
proof -
  have "\<bar>grid k x - x\<bar> \<le> 1 / 2 ^ Suc k" for x
  proof -
    define d where "d = real_of_int (round (x * 2 ^ k)) - x * 2 ^ k"
    have "\<bar>d\<bar> \<le> 1 / 2"
      unfolding d_def by (rule of_int_round_abs_le)
    then have "\<bar>d\<bar> / 2 ^ k \<le> (1 / 2) / 2 ^ k"
      by (intro divide_right_mono) simp_all
    moreover have "grid k x - x = d / 2 ^ k"
      by (simp add: grid_def d_def field_simps)
    ultimately show ?thesis
      by (simp add: abs_divide)
  qed
  then show ?thesis by (simp add: rounds_within_def)
qed

lemma spin_drift:
  assumes rot: "rotate s"
    and rnd: "rounds_within (rnd64 e) B eps"
    and eps0: "0 \<le> eps"
    and room: "\<bar>spinCount s\<bar> + real n * (5 / 10000 + 2 * eps) \<le> B"
  shows "\<bar>spinCount ((tick e ^^ n) s) - (spinCount s + real n * (5 / 10000))\<bar> \<le> 2 * real n * eps"
  using room
proof (induction n)
  case 0
  then show ?case by simp
next
  case (Suc n)
  define k where "k = 5 / 10000 + 2 * eps"
  define t where "t = spinCount ((tick e ^^ n) s)"
  define c where "c = rnd64 e (5 / 10000)"
  define a where "a = real n * eps"
  have k0: "0 \<le> k" "5 / 10000 \<le> k"
    using eps0 by (simp_all add: k_def)
  have a0: "0 \<le> a"
    using eps0 by (simp add: a_def)
  have nk: "real n * k = real n * (5 / 10000) + 2 * a"
    by (simp add: k_def a_def algebra_simps)
  have split: "real (Suc n) * x = real n * x + x" for x :: real
    by (simp add: algebra_simps)
  have "\<bar>spinCount s\<bar> + real (Suc n) * k \<le> B"
    using Suc.prems unfolding k_def .
  then have room_suc: "\<bar>spinCount s\<bar> + (real n * k + k) \<le> B"
    unfolding split .
  have nk0: "0 \<le> real n * k"
    using k0 by simp
  have room_n: "\<bar>spinCount s\<bar> + real n * (5 / 10000 + 2 * eps) \<le> B"
    using room_suc k0 unfolding k_def by linarith
  have IH: "\<bar>t - (spinCount s + real n * (5 / 10000))\<bar> \<le> 2 * a"
    unfolding t_def a_def using Suc.IH [OF room_n] by (simp add: mult.assoc)
  have cB: "\<bar>5 / 10000 :: real\<bar> \<le> B"
    using room_suc k0 nk0 by linarith
  have cerr: "\<bar>c - 5 / 10000\<bar> \<le> eps"
    unfolding c_def using rnd cB unfolding rounds_within_def by blast
  have sumB: "\<bar>t + c\<bar> \<le> B"
    using IH cerr room_suc nk unfolding k_def by linarith
  have serr: "\<bar>rnd64 e (t + c) - (t + c)\<bar> \<le> eps"
    using rnd sumB unfolding rounds_within_def by blast
  have step: "spinCount ((tick e ^^ Suc n) s) = rnd64 e (t + c)"
    unfolding t_def c_def using rot by (simp add: tick_spin_enabled)
  have goal: "2 * real (Suc n) * eps = 2 * a + 2 * eps"
    by (simp add: a_def algebra_simps)
  show ?case
    unfolding step goal split using IH cerr serr by linarith
qed

lemma angle_error:
  fixes r64 r32 :: "real \<Rightarrow> real"
  assumes r64: "rounds_within r64 B eps"
    and r32: "rounds_within r32 B eps32"
    and eps0: "0 \<le> eps"
    and PiB: "math_Pi \<le> B"
    and near: "\<bar>x - t\<bar> \<le> d"
    and t0: "0 \<le> t"
    and room: "(t + d) * (math_Pi + eps) + eps \<le> B"
  shows "\<bar>r32 (r64 (x * r64 math_Pi)) - t * math_Pi\<bar> \<le> eps32 + eps * (1 + t + d) + math_Pi * d"
proof -
  define q where "q = r64 math_Pi"
  have Pi0: "0 \<le> math_Pi"
    by (simp add: math_Pi_def)
  define m where "m = r64 (x * q)"
  have d0: "0 \<le> d"
    using near by linarith
  have "\<bar>math_Pi\<bar> \<le> B"
    using PiB Pi0 by simp
  then have qerr: "\<bar>q - math_Pi\<bar> \<le> eps"
    unfolding q_def using r64 unfolding rounds_within_def by blast
  have xabs: "\<bar>x\<bar> \<le> t + d"
    using near t0 by linarith
  have qabs: "\<bar>q\<bar> \<le> math_Pi + eps"
    using qerr Pi0 by linarith
  have prod: "\<bar>x * q\<bar> \<le> (t + d) * (math_Pi + eps)"
    unfolding abs_mult using xabs qabs by (intro mult_mono) simp_all
  then have "\<bar>x * q\<bar> \<le> B"
    using room eps0 by linarith
  then have merr: "\<bar>m - x * q\<bar> \<le> eps"
    unfolding m_def using r64 unfolding rounds_within_def by blast
  have "\<bar>m\<bar> \<le> B"
    using merr prod room by linarith
  then have aerr: "\<bar>r32 m - m\<bar> \<le> eps32"
    using r32 unfolding rounds_within_def by blast
  have e1: "\<bar>x * (q - math_Pi)\<bar> \<le> (t + d) * eps"
    unfolding abs_mult using xabs qerr by (intro mult_mono) simp_all
  have e2: "\<bar>math_Pi * (x - t)\<bar> \<le> math_Pi * d"
    unfolding abs_mult using near Pi0 by (simp add: mult_left_mono)
  have split: "x * q - t * math_Pi = x * (q - math_Pi) + math_Pi * (x - t)"
    by (simp add: algebra_simps)
  have "\<bar>x * q - t * math_Pi\<bar> \<le> (t + d) * eps + math_Pi * d"
    unfolding split using e1 e2 by linarith
  moreover have "(t + d) * eps = eps * (t + d)"
    by simp
  moreover have "eps * (1 + t + d) = eps + eps * (t + d)"
    by (simp add: algebra_simps)
  ultimately show ?thesis
    unfolding q_def [symmetric] m_def [symmetric] using merr aerr by linarith
qed

subsection \<open>One frame, and runs of frames\<close>

lemma frame_trace:
  "trace (frame e p evs s) =
     trace s @
     [Gl (ClearColor 0 0 0 1), Gl (Clear COLOR_BUFFER_BIT),
      Prog (GetUniformLocation p ''model''),
      Loc (UniformMatrix4fv (uniform_location e ''model'') False (modelMat (tick e s))),
      Prog (GetUniformLocation p ''view''),
      Loc (UniformMatrix4fv (uniform_location e ''view'') False
             (LookAt (1, 0, 1) (0, 0, 0) (0, 0, 1))),
      Gl (DrawElements TRIANGLE_STRIP 4 UNSIGNED_SHORT 0),
      Glfw SwapBuffers, Glfw PollEvents]"
  by (simp add: frame_def Let_def tick_def)

lemma frame_fields:
  "modelMat (frame e p evs s) = modelMat (tick e s)"
  "spinCount (frame e p evs s) = spinCount (tick e s)"
  "deferred (frame e p evs s) = deferred s"
  "next_name (frame e p evs s) = next_name s"
  "shouldClose (frame e p evs s) = (shouldClose s \<or> (\<exists>ev\<in>set evs. requests_close ev))"
  by (simp_all add: frame_def Let_def tick_def pollEvents_def fold_deliver_shouldClose)

lemma frame_draw_calls: "draw_calls (trace (frame e p evs s)) = Suc (draw_calls (trace s))"
  by (simp add: frame_trace draw_calls_def)

lemma frames_Nil [simp]: "frames e p [] s = s"
  by (simp add: frames_def)

lemma frames_Cons [simp]: "frames e p (evs # polls) s = frames e p polls (frame e p evs s)"
  by (simp add: frames_def)

lemma frames_append: "frames e p (xs @ ys) s = frames e p ys (frames e p xs s)"
  by (simp add: frames_def)

lemma frames_deferred [simp]: "deferred (frames e p polls s) = deferred s"
  by (induction polls arbitrary: s) (simp_all add: frame_fields)

lemma frames_draw_calls:
  "draw_calls (trace (frames e p polls s)) = draw_calls (trace s) + length polls"
  by (induction polls arbitrary: s) (simp_all add: frame_draw_calls)

lemma frames_spin:
  "spinCount (frames e p polls s) =
     spinCount ((tick e ^^ enabled_frames e p polls s) (s\<lparr>rotate := True\<rparr>))"
proof (induction polls arbitrary: s)
  case Nil
  then show ?case by simp
next
  case (Cons evs polls)
  let ?s' = "frame e p evs s"
  let ?k = "enabled_frames e p polls ?s'"
  have IH: "spinCount (frames e p polls ?s') = spinCount ((tick e ^^ ?k) (?s'\<lparr>rotate := True\<rparr>))"
    by (rule Cons.IH)
  show ?case
  proof (cases "rotate s")
    case True
    have "spinCount ((tick e ^^ ?k) (?s'\<lparr>rotate := True\<rparr>)) =
          spinCount ((tick e ^^ ?k) (tick e (s\<lparr>rotate := True\<rparr>)))"
      using True by (intro tick_pow_spin_cong) (simp_all add: frame_fields tick_def Let_def)
    then show ?thesis
      using True IH by (simp add: funpow_swap1)
  next
    case False
    have "spinCount ((tick e ^^ ?k) (?s'\<lparr>rotate := True\<rparr>)) =
          spinCount ((tick e ^^ ?k) (s\<lparr>rotate := True\<rparr>))"
      using False by (intro tick_pow_spin_cong) (simp_all add: frame_fields tick_def Let_def)
    then show ?thesis
      using False IH by simp
  qed
qed

lemma frame_loop_through:
  assumes "\<not> shouldClose s"
    and "\<forall>evs\<in>set pre. \<forall>ev\<in>set evs. \<not> requests_close ev"
  shows "frame_loop e p (pre @ rest) s = frame_loop e p rest (frames e p pre s) \<and>
         \<not> shouldClose (frames e p pre s)"
  using assms
proof (induction pre arbitrary: s)
  case Nil
  then show ?case by simp
next
  case (Cons evs pre)
  have "\<not> shouldClose (frame e p evs s)"
    using Cons.prems by (simp add: frame_fields)
  then show ?case
    using Cons.IH [of "frame e p evs s"] Cons.prems by simp
qed

lemma frame_loop_quit:
  assumes "\<not> shouldClose s" and "\<exists>ev\<in>set evs. requests_close ev"
  shows "frame_loop e p (evs # later) s = Some (frame e p evs s)"
proof -
  have "shouldClose (frame e p evs s)"
    using assms by (simp add: frame_fields)
  then show ?thesis
    using assms by (cases later) simp_all
qed

subsection \<open>The stages of start-up\<close>

lemma upload_geometry_trace:
  "trace (upload_geometry s) =
     trace s @
     [Buf (GenVertexArray (next_name s)), Buf (BindVertexArray (next_name s)),
      Buf (GenBuffer (next_name s + 1)), Buf (BindBuffer (next_name s + 1) ARRAY_BUFFER),
      Buf (BufferDataFloat ARRAY_BUFFER 64 vertices STATIC_DRAW),
      Buf (GenBuffer (next_name s + 2)),
      Buf (BindBuffer (next_name s + 2) ELEMENT_ARRAY_BUFFER),
      Buf (BufferDataUshort ELEMENT_ARRAY_BUFFER 8 elements STATIC_DRAW)]"
  by (simp add: upload_geometry_def Let_def split_beta vertices_def elements_def)

lemma upload_geometry_fields:
  "rotate (upload_geometry s) = rotate s"
  "shouldClose (upload_geometry s) = shouldClose s"
  "next_name (upload_geometry s) = next_name s + 3"
  "deferred (upload_geometry s) =
     [Buf (DeleteBuffer (next_name s + 2)), Buf (DeleteBuffer (next_name s + 1)),
      Buf (DeleteVertexArray (next_name s))] @ deferred s"
  by (simp_all add: upload_geometry_def Let_def split_beta)

lemma loadTextureFromImage_ok:
  assumes "loadImage e filename = Inr img"
  shows "fst (loadTextureFromImage e filename texture_id s) = (next_name s, None)"
    and "trace (snd (loadTextureFromImage e filename texture_id s)) =
           trace s @
           [Tex (GenTexture (next_name s)), Tex (ActiveTexture texture_id),
            Tex (BindTexture (next_name s) TEXTURE_2D),
            Tex (TexImage2D TEXTURE_2D 0 RGBA (Dx (Bounds img)) (Dy (Bounds img)) 0
                   RGBA UNSIGNED_BYTE (Pix img))]"
    and "rotate (snd (loadTextureFromImage e filename texture_id s)) = rotate s"
    and "shouldClose (snd (loadTextureFromImage e filename texture_id s)) = shouldClose s"
    and "deferred (snd (loadTextureFromImage e filename texture_id s)) = deferred s"
    and "next_name (snd (loadTextureFromImage e filename texture_id s)) = Suc (next_name s)"
  using assms by (simp_all add: loadTextureFromImage_def Let_def split_beta)

lemma loadTextureFromImage_err:
  assumes "loadImage e filename = Inl err"
  shows "fst (loadTextureFromImage e filename texture_id s) = (next_name s, Some err)"
    and "trace (snd (loadTextureFromImage e filename texture_id s)) =
           trace s @ [Tex (GenTexture (next_name s))]"
    and "rotate (snd (loadTextureFromImage e filename texture_id s)) = rotate s"
    and "shouldClose (snd (loadTextureFromImage e filename texture_id s)) = shouldClose s"
    and "deferred (snd (loadTextureFromImage e filename texture_id s)) = deferred s"
    and "next_name (snd (loadTextureFromImage e filename texture_id s)) = Suc (next_name s)"
  using assms by (simp_all add: loadTextureFromImage_def Let_def split_beta)

lemma load_textures_ok:
  assumes "loadImage e ''sloth_n_banana.jpg'' = Inr img1"
    and "loadImage e ''sloth_n_kebab.jpg'' = Inr img2"
  shows "fst (load_textures e s) = None"
    and "trace (snd (load_textures e s)) =
           trace s @
           [Tex (GenTexture (next_name s)), Tex (ActiveTexture TEXTURE0),
            Tex (BindTexture (next_name s) TEXTURE_2D),
            Tex (TexImage2D TEXTURE_2D 0 RGBA (Dx (Bounds img1)) (Dy (Bounds img1)) 0
                   RGBA UNSIGNED_BYTE (Pix img1)),
            Tex (TexParameteri TEXTURE_2D TEXTURE_MIN_FILTER LINEAR),
            Tex (TexParameteri TEXTURE_2D TEXTURE_MAG_FILTER LINEAR),
            Tex (GenTexture (next_name s + 1)), Tex (ActiveTexture TEXTURE1),
            Tex (BindTexture (next_name s + 1) TEXTURE_2D),
            Tex (TexImage2D TEXTURE_2D 0 RGBA (Dx (Bounds img2)) (Dy (Bounds img2)) 0
                   RGBA UNSIGNED_BYTE (Pix img2)),
            Tex (TexParameteri TEXTURE_2D TEXTURE_MIN_FILTER LINEAR),
            Tex (TexParameteri TEXTURE_2D TEXTURE_MAG_FILTER LINEAR)]"
    and "deferred (snd (load_textures e s)) =
           [Tex (DeleteTexture (next_name s + 1)), Tex (DeleteTexture (next_name s))] @ deferred s"
    and "next_name (snd (load_textures e s)) = next_name s + 2"
  using assms
  by (simp_all add: load_textures_def loadTextureFromImage_def Let_def split_beta)

lemma load_textures_quiet:
  "rotate (snd (load_textures e s)) = rotate s"
  "shouldClose (snd (load_textures e s)) = shouldClose s"
  "filter is_draw (trace (snd (load_textures e s))) = filter is_draw (trace s)"
  "filter is_draw (deferred (snd (load_textures e s))) = filter is_draw (deferred s)"
  by (simp_all add: load_textures_def loadTextureFromImage_def Let_def split_beta
      split: sum.splits prod.splits option.splits)

lemma loadShader_fields:
  "trace (snd (loadShader e shaderType source s)) =
     trace s @
     [Sh (CreateShader shaderType (next_name s)), Sh (ShaderSource (next_name s) source),
      Sh (CompileShader (next_name s)), Sh (GetShader (next_name s) COMPILE_STATUS)]"
  "fst (fst (loadShader e shaderType source s)) = next_name s"
  "rotate (snd (loadShader e shaderType source s)) = rotate s"
  "shouldClose (snd (loadShader e shaderType source s)) = shouldClose s"
  "deferred (snd (loadShader e shaderType source s)) = deferred s"
  "next_name (snd (loadShader e shaderType source s)) = Suc (next_name s)"
  by (simp_all add: loadShader_def Let_def split_beta)

lemma load_shaders_quiet:
  "rotate (snd (load_shaders e s)) = rotate s"
  "shouldClose (snd (load_shaders e s)) = shouldClose s"
  "filter is_draw (trace (snd (load_shaders e s))) = filter is_draw (trace s)"
  "filter is_draw (deferred (snd (load_shaders e s))) = filter is_draw (deferred s)"
  by (simp_all add: load_shaders_def loadShader_def Let_def split_beta
      split: sum.splits prod.splits option.splits)

lemma link_program_fields:
  "fst (link_program vs fs s) = next_name s"
  "trace (snd (link_program vs fs s)) =
     trace s @
     [Prog (CreateProgram (next_name s)), Prog (AttachShader (next_name s) vs),
      Prog (AttachShader (next_name s) fs),
      Prog (BindFragDataLocation (next_name s) 0 ''outColor''),
      Prog (LinkProgram (next_name s)), Prog (UseProgram (next_name s))]"
  "rotate (snd (link_program vs fs s)) = rotate s"
  "shouldClose (snd (link_program vs fs s)) = shouldClose s"
  "deferred (snd (link_program vs fs s)) = Prog (DeleteProgram (next_name s)) # deferred s"
  by (simp_all add: link_program_def Let_def split_beta)

lemma bind_inputs_fields:
  "trace (bind_inputs e p s) =
     trace s @
     [Prog (GetAttribLocation p ''position''),
      Loc (AttribPointer (attrib_location e ''position'') 2 FLOAT False 16 0),
      Loc (EnableArray (attrib_location e ''position'')),
      Prog (GetAttribLocation p ''textureCoord''),
      Loc (AttribPointer (attrib_location e ''textureCoord'') 2 FLOAT False 16 8),
      Loc (EnableArray (attrib_location e ''textureCoord'')),
      Prog (GetUniformLocation p ''tex1''), Loc (Uniform1i (uniform_location e ''tex1'') 0),
      Prog (GetUniformLocation p ''tex2''), Loc (Uniform1i (uniform_location e ''tex2'') 1)]"
  "rotate (bind_inputs e p s) = rotate s"
  "shouldClose (bind_inputs e p s) = shouldClose s"
  "deferred (bind_inputs e p s) = deferred s"
  by (simp_all add: bind_inputs_def Let_def)

lemma init_transforms_fields:
  "trace (init_transforms e p s) =
     trace s @
     [Prog (GetUniformLocation p ''projection''),
      Loc (UniformMatrix4fv (uniform_location e ''projection'') False projectionMat)]"
  "rotate (init_transforms e p s) = rotate s"
  "shouldClose (init_transforms e p s) = shouldClose s"
  "deferred (init_transforms e p s) = deferred s"
  "modelMat (init_transforms e p s) = Identity"
  "spinCount (init_transforms e p s) = 0"
  by (simp_all add: init_transforms_def Let_def)

lemma glInit_quiet:
  "rotate (snd (glInit e s)) = rotate s"
  "shouldClose (snd (glInit e s)) = shouldClose s"
  "filter is_draw (trace (snd (glInit e s))) = filter is_draw (trace s)"
  "deferred (snd (glInit e s)) = deferred s"
  by (simp_all add: glInit_def Let_def split: option.splits)

lemmas stage_simps =
  glInit_quiet upload_geometry_fields upload_geometry_trace load_textures_quiet
  load_shaders_quiet link_program_fields bind_inputs_fields init_transforms_fields

lemma startup_quiet:
  "rotate (snd (startup e))"
  "\<not> shouldClose (snd (startup e))"
  "filter is_draw (trace (snd (startup e))) = []"
  "filter is_draw (deferred (snd (startup e))) = []"
  by (simp_all add: startup_def Let_def split_beta init_state_def stage_simps
      split: option.splits sum.splits)

lemma startup_transforms:
  assumes "fst (startup e) = Inr p"
  shows "modelMat (snd (startup e)) = Identity" and "spinCount (snd (startup e)) = 0"
  using assms
  by (simp_all add: startup_def Let_def split_beta init_transforms_fields
      split: option.splits sum.splits)

lemma startup_state:
  assumes "startup e = (Inr p, s)"
  shows "rotate s" and "\<not> shouldClose s" and "modelMat s = Identity" and "spinCount s = 0"
    and "draw_calls (trace s) = 0" and "draw_calls (deferred s) = 0"
proof -
  have s: "s = snd (startup e)" and p: "fst (startup e) = Inr p"
    using assms by simp_all
  show "rotate s" "\<not> shouldClose s" "draw_calls (trace s) = 0" "draw_calls (deferred s) = 0"
    unfolding s draw_calls_def by (simp_all add: startup_quiet)
  show "modelMat s = Identity" "spinCount s = 0"
    unfolding s using p by (simp_all add: startup_transforms)
qed

lemma startup_ideal: "fst (startup ideal_env) = Inr 8"
  by (simp add: startup_def Let_def split_beta init_state_def ideal_env_def glInit_def
      loadImage_def sample_image_def load_textures_def loadTextureFromImage_def
      load_shaders_def loadShader_def upload_geometry_def link_program_def)

subsection \<open>Printing\<close>

lemma decimal_VERTEX_SHADER: "decimal (GLenum_value VERTEX_SHADER) = ''35633''"
  by (simp add: decimal.simps [of 35633] decimal.simps [of 3563] decimal.simps [of 356]
      decimal.simps [of 35] decimal.simps [of 3])

lemma decimal_FRAGMENT_SHADER: "decimal (GLenum_value FRAGMENT_SHADER) = ''35632''"
  by (simp add: decimal.simps [of 35632] decimal.simps [of 3563] decimal.simps [of 356]
      decimal.simps [of 35] decimal.simps [of 3])

subsection \<open>Start-up when every step succeeds\<close>

lemma glInit_ok:
  assumes "glfw_init e" and "create_window e = None" and "gl_init e = 0"
  shows "fst (glInit e s) = None"
    and "trace (snd (glInit e s)) =
           trace s @
           [Glfw SetErrorCallback, Glfw GlfwInit,
            Glfw (WindowHint ContextVersionMajor (HintInt 3)),
            Glfw (WindowHint ContextVersionMinor (HintInt 2)),
            Glfw (WindowHint OpenglProfile OpenglCoreProfile),
            Glfw (WindowHint OpenglForwardCompatible GL_TRUE),
            Glfw (CreateWindow 640 480 ''OpenGL Textures''),
            Glfw SetKeyCallback, Glfw MakeContextCurrent, Gl GlInit]"
    and "next_name (snd (glInit e s)) = next_name s"
  using assms by (simp_all add: glInit_def Let_def)

lemma load_shaders_ok:
  assumes "compile_status e VERTEX_SHADER vertex_shader \<noteq> 0"
    and "compile_status e FRAGMENT_SHADER fragment_shader \<noteq> 0"
  shows "fst (load_shaders e s) = Inr (next_name s, next_name s + 1)"
    and "trace (snd (load_shaders e s)) =
           trace s @
           [Sh (CreateShader VERTEX_SHADER (next_name s)),
            Sh (ShaderSource (next_name s) vertex_shader),
            Sh (CompileShader (next_name s)), Sh (GetShader (next_name s) COMPILE_STATUS),
            Sh (CreateShader FRAGMENT_SHADER (next_name s + 1)),
            Sh (ShaderSource (next_name s + 1) fragment_shader),
            Sh (CompileShader (next_name s + 1)),
            Sh (GetShader (next_name s + 1) COMPILE_STATUS)]"
    and "deferred (snd (load_shaders e s)) =
           [Sh (DeleteShader (next_name s + 1)), Sh (DeleteShader (next_name s))] @ deferred s"
    and "next_name (snd (load_shaders e s)) = next_name s + 2"
  using assms by (simp_all add: load_shaders_def loadShader_def Let_def split_beta)

text \<open>
  The complete trace of a start-up without failure: lines 147 to 222 in order, with the
  objects numbered 1 to 8 as they are created.
\<close>

lemma startup_ok:
  assumes init: "glfw_init e" "create_window e = None" "gl_init e = 0"
    and img1: "loadImage e ''sloth_n_banana.jpg'' = Inr img1"
    and img2: "loadImage e ''sloth_n_kebab.jpg'' = Inr img2"
    and compiled: "compile_status e VERTEX_SHADER vertex_shader \<noteq> 0"
      "compile_status e FRAGMENT_SHADER fragment_shader \<noteq> 0"
  shows "fst (startup e) = Inr 8"
    and "trace (snd (startup e)) =
           [Glfw SetErrorCallback, Glfw GlfwInit,
            Glfw (WindowHint ContextVersionMajor (HintInt 3)),
            Glfw (WindowHint ContextVersionMinor (HintInt 2)),
            Glfw (WindowHint OpenglProfile OpenglCoreProfile),
            Glfw (WindowHint OpenglForwardCompatible GL_TRUE),
            Glfw (CreateWindow 640 480 ''OpenGL Textures''),
            Glfw SetKeyCallback, Glfw MakeContextCurrent, Gl GlInit,
            Buf (GenVertexArray 1), Buf (BindVertexArray 1),
            Buf (GenBuffer 2), Buf (BindBuffer 2 ARRAY_BUFFER),
            Buf (BufferDataFloat ARRAY_BUFFER 64 vertices STATIC_DRAW),
            Buf (GenBuffer 3), Buf (BindBuffer 3 ELEMENT_ARRAY_BUFFER),
            Buf (BufferDataUshort ELEMENT_ARRAY_BUFFER 8 elements STATIC_DRAW),
            Tex (GenTexture 4), Tex (ActiveTexture TEXTURE0), Tex (BindTexture 4 TEXTURE_2D),
            Tex (TexImage2D TEXTURE_2D 0 RGBA (Dx (Bounds img1)) (Dy (Bounds img1)) 0
                   RGBA UNSIGNED_BYTE (Pix img1)),
            Tex (TexParameteri TEXTURE_2D TEXTURE_MIN_FILTER LINEAR),
            Tex (TexParameteri TEXTURE_2D TEXTURE_MAG_FILTER LINEAR),
            Tex (GenTexture 5), Tex (ActiveTexture TEXTURE1), Tex (BindTexture 5 TEXTURE_2D),
            Tex (TexImage2D TEXTURE_2D 0 RGBA (Dx (Bounds img2)) (Dy (Bounds img2)) 0
                   RGBA UNSIGNED_BYTE (Pix img2)),
            Tex (TexParameteri TEXTURE_2D TEXTURE_MIN_FILTER LINEAR),
            Tex (TexParameteri TEXTURE_2D TEXTURE_MAG_FILTER LINEAR),
            Sh (CreateShader VERTEX_SHADER 6), Sh (ShaderSource 6 vertex_shader),
            Sh (CompileShader 6), Sh (GetShader 6 COMPILE_STATUS),
            Sh (CreateShader FRAGMENT_SHADER 7), Sh (ShaderSource 7 fragment_shader),
            Sh (CompileShader 7), Sh (GetShader 7 COMPILE_STATUS),
            Prog (CreateProgram 8), Prog (AttachShader 8 6), Prog (AttachShader 8 7),
            Prog (BindFragDataLocation 8 0 ''outColor''),
            Prog (LinkProgram 8), Prog (UseProgram 8),
            Prog (GetAttribLocation 8 ''position''),
            Loc (AttribPointer (attrib_location e ''position'') 2 FLOAT False 16 0),
            Loc (EnableArray (attrib_location e ''position'')),
            Prog (GetAttribLocation 8 ''textureCoord''),
            Loc (AttribPointer (attrib_location e ''textureCoord'') 2 FLOAT False 16 8),
            Loc (EnableArray (attrib_location e ''textureCoord'')),
            Prog (GetUniformLocation 8 ''tex1''), Loc (Uniform1i (uniform_location e ''tex1'') 0),
            Prog (GetUniformLocation 8 ''tex2''), Loc (Uniform1i (uniform_location e ''tex2'') 1),
            Prog (GetUniformLocation 8 ''projection''),
            Loc (UniformMatrix4fv (uniform_location e ''projection'') False projectionMat)]"
    and "deferred (snd (startup e)) =
           [Prog (DeleteProgram 8), Sh (DeleteShader 7), Sh (DeleteShader 6),
            Tex (DeleteTexture 5), Tex (DeleteTexture 4),
            Buf (DeleteBuffer 3), Buf (DeleteBuffer 2), Buf (DeleteVertexArray 1),
            Glfw Terminate]"
proof -
  define s1 where "s1 = upload_geometry (defer_call (Glfw Terminate) (snd (glInit e init_state)))"
  define s2 where "s2 = snd (load_textures e s1)"
  define s3 where "s3 = snd (load_shaders e s2)"
  define s4 where "s4 = bind_inputs e 8 (snd (link_program 6 7 s3))"
  have n1: "next_name s1 = 4"
    by (simp add: s1_def upload_geometry_fields glInit_ok [OF init] init_state_def)
  have n2: "next_name s2 = 6"
    by (simp add: s2_def load_textures_ok [OF img1 img2] n1)
  have n3: "next_name s3 = 8"
    by (simp add: s3_def load_shaders_ok [OF compiled] n2)
  have sh: "fst (load_shaders e s2) = Inr (6, 7)"
    by (simp add: load_shaders_ok [OF compiled] n2)
  have st: "startup e = (Inr 8, init_transforms e 8 s4)"
    by (simp add: startup_def Let_def split_beta glInit_ok [OF init]
        load_textures_ok [OF img1 img2] sh link_program_fields n3
        s1_def [symmetric] s2_def [symmetric] s3_def [symmetric] s4_def)
  show "fst (startup e) = Inr 8"
    by (simp add: st)
  have t1: "trace s1 =
      [Glfw SetErrorCallback, Glfw GlfwInit,
       Glfw (WindowHint ContextVersionMajor (HintInt 3)),
       Glfw (WindowHint ContextVersionMinor (HintInt 2)),
       Glfw (WindowHint OpenglProfile OpenglCoreProfile),
       Glfw (WindowHint OpenglForwardCompatible GL_TRUE),
       Glfw (CreateWindow 640 480 ''OpenGL Textures''),
       Glfw SetKeyCallback, Glfw MakeContextCurrent, Gl GlInit,
       Buf (GenVertexArray 1), Buf (BindVertexArray 1),
       Buf (GenBuffer 2), Buf (BindBuffer 2 ARRAY_BUFFER),
       Buf (BufferDataFloat ARRAY_BUFFER 64 vertices STATIC_DRAW),
       Buf (GenBuffer 3), Buf (BindBuffer 3 ELEMENT_ARRAY_BUFFER),
       Buf (BufferDataUshort ELEMENT_ARRAY_BUFFER 8 elements STATIC_DRAW)]"
    by (simp add: s1_def upload_geometry_trace glInit_ok [OF init] init_state_def)
  have t2: "trace s2 =
           [Glfw SetErrorCallback, Glfw GlfwInit,
            Glfw (WindowHint ContextVersionMajor (HintInt 3)),
            Glfw (WindowHint ContextVersionMinor (HintInt 2)),
            Glfw (WindowHint OpenglProfile OpenglCoreProfile),
            Glfw (WindowHint OpenglForwardCompatible GL_TRUE),
            Glfw (CreateWindow 640 480 ''OpenGL Textures''),
            Glfw SetKeyCallback, Glfw MakeContextCurrent, Gl GlInit,
            Buf (GenVertexArray 1), Buf (BindVertexArray 1),
            Buf (GenBuffer 2), Buf (BindBuffer 2 ARRAY_BUFFER),
            Buf (BufferDataFloat ARRAY_BUFFER 64 vertices STATIC_DRAW),
            Buf (GenBuffer 3), Buf (BindBuffer 3 ELEMENT_ARRAY_BUFFER),
            Buf (BufferDataUshort ELEMENT_ARRAY_BUFFER 8 elements STATIC_DRAW),
            Tex (GenTexture 4), Tex (ActiveTexture TEXTURE0), Tex (BindTexture 4 TEXTURE_2D),
            Tex (TexImage2D TEXTURE_2D 0 RGBA (Dx (Bounds img1)) (Dy (Bounds img1)) 0
                   RGBA UNSIGNED_BYTE (Pix img1)),
            Tex (TexParameteri TEXTURE_2D TEXTURE_MIN_FILTER LINEAR),
            Tex (TexParameteri TEXTURE_2D TEXTURE_MAG_FILTER LINEAR),
            Tex (GenTexture 5), Tex (ActiveTexture TEXTURE1), Tex (BindTexture 5 TEXTURE_2D),
            Tex (TexImage2D TEXTURE_2D 0 RGBA (Dx (Bounds img2)) (Dy (Bounds img2)) 0
                   RGBA UNSIGNED_BYTE (Pix img2)),
            Tex (TexParameteri TEXTURE_2D TEXTURE_MIN_FILTER LINEAR),
            Tex (TexParameteri TEXTURE_2D TEXTURE_MAG_FILTER LINEAR)]"
    by (simp add: s2_def load_textures_ok [OF img1 img2] n1 t1)
  have t3: "trace s3 =
           [Glfw SetErrorCallback, Glfw GlfwInit,
            Glfw (WindowHint ContextVersionMajor (HintInt 3)),
            Glfw (WindowHint ContextVersionMinor (HintInt 2)),
            Glfw (WindowHint OpenglProfile OpenglCoreProfile),
            Glfw (WindowHint OpenglForwardCompatible GL_TRUE),
            Glfw (CreateWindow 640 480 ''OpenGL Textures''),
            Glfw SetKeyCallback, Glfw MakeContextCurrent, Gl GlInit,
            Buf (GenVertexArray 1), Buf (BindVertexArray 1),
            Buf (GenBuffer 2), Buf (BindBuffer 2 ARRAY_BUFFER),
            Buf (BufferDataFloat ARRAY_BUFFER 64 vertices STATIC_DRAW),
            Buf (GenBuffer 3), Buf (BindBuffer 3 ELEMENT_ARRAY_BUFFER),
            Buf (BufferDataUshort ELEMENT_ARRAY_BUFFER 8 elements STATIC_DRAW),
            Tex (GenTexture 4), Tex (ActiveTexture TEXTURE0), Tex (BindTexture 4 TEXTURE_2D),
            Tex (TexImage2D TEXTURE_2D 0 RGBA (Dx (Bounds img1)) (Dy (Bounds img1)) 0
                   RGBA UNSIGNED_BYTE (Pix img1)),
            Tex (TexParameteri TEXTURE_2D TEXTURE_MIN_FILTER LINEAR),
            Tex (TexParameteri TEXTURE_2D TEXTURE_MAG_FILTER LINEAR),
            Tex (GenTexture 5), Tex (ActiveTexture TEXTURE1), Tex (BindTexture 5 TEXTURE_2D),
            Tex (TexImage2D TEXTURE_2D 0 RGBA (Dx (Bounds img2)) (Dy (Bounds img2)) 0
                   RGBA UNSIGNED_BYTE (Pix img2)),
            Tex (TexParameteri TEXTURE_2D TEXTURE_MIN_FILTER LINEAR),
            Tex (TexParameteri TEXTURE_2D TEXTURE_MAG_FILTER LINEAR),
            Sh (CreateShader VERTEX_SHADER 6), Sh (ShaderSource 6 vertex_shader),
            Sh (CompileShader 6), Sh (GetShader 6 COMPILE_STATUS),
            Sh (CreateShader FRAGMENT_SHADER 7), Sh (ShaderSource 7 fragment_shader),
            Sh (CompileShader 7), Sh (GetShader 7 COMPILE_STATUS)]"
    by (simp add: s3_def load_shaders_ok [OF compiled] n2 t2)
  show "trace (snd (startup e)) =
           [Glfw SetErrorCallback, Glfw GlfwInit,
            Glfw (WindowHint ContextVersionMajor (HintInt 3)),
            Glfw (WindowHint ContextVersionMinor (HintInt 2)),
            Glfw (WindowHint OpenglProfile OpenglCoreProfile),
            Glfw (WindowHint OpenglForwardCompatible GL_TRUE),
            Glfw (CreateWindow 640 480 ''OpenGL Textures''),
            Glfw SetKeyCallback, Glfw MakeContextCurrent, Gl GlInit,
            Buf (GenVertexArray 1), Buf (BindVertexArray 1),
            Buf (GenBuffer 2), Buf (BindBuffer 2 ARRAY_BUFFER),
            Buf (BufferDataFloat ARRAY_BUFFER 64 vertices STATIC_DRAW),
            Buf (GenBuffer 3), Buf (BindBuffer 3 ELEMENT_ARRAY_BUFFER),
            Buf (BufferDataUshort ELEMENT_ARRAY_BUFFER 8 elements STATIC_DRAW),
            Tex (GenTexture 4), Tex (ActiveTexture TEXTURE0), Tex (BindTexture 4 TEXTURE_2D),
            Tex (TexImage2D TEXTURE_2D 0 RGBA (Dx (Bounds img1)) (Dy (Bounds img1)) 0
                   RGBA UNSIGNED_BYTE (Pix img1)),
            Tex (TexParameteri TEXTURE_2D TEXTURE_MIN_FILTER LINEAR),
            Tex (TexParameteri TEXTURE_2D TEXTURE_MAG_FILTER LINEAR),
            Tex (GenTexture 5), Tex (ActiveTexture TEXTURE1), Tex (BindTexture 5 TEXTURE_2D),
            Tex (TexImage2D TEXTURE_2D 0 RGBA (Dx (Bounds img2)) (Dy (Bounds img2)) 0
                   RGBA UNSIGNED_BYTE (Pix img2)),
            Tex (TexParameteri TEXTURE_2D TEXTURE_MIN_FILTER LINEAR),
            Tex (TexParameteri TEXTURE_2D TEXTURE_MAG_FILTER LINEAR),
            Sh (CreateShader VERTEX_SHADER 6), Sh (ShaderSource 6 vertex_shader),
            Sh (CompileShader 6), Sh (GetShader 6 COMPILE_STATUS),
            Sh (CreateShader FRAGMENT_SHADER 7), Sh (ShaderSource 7 fragment_shader),
            Sh (CompileShader 7), Sh (GetShader 7 COMPILE_STATUS),
            Prog (CreateProgram 8), Prog (AttachShader 8 6), Prog (AttachShader 8 7),
            Prog (BindFragDataLocation 8 0 ''outColor''),
            Prog (LinkProgram 8), Prog (UseProgram 8),
            Prog (GetAttribLocation 8 ''position''),
            Loc (AttribPointer (attrib_location e ''position'') 2 FLOAT False 16 0),
            Loc (EnableArray (attrib_location e ''position'')),
            Prog (GetAttribLocation 8 ''textureCoord''),
            Loc (AttribPointer (attrib_location e ''textureCoord'') 2 FLOAT False 16 8),
            Loc (EnableArray (attrib_location e ''textureCoord'')),
            Prog (GetUniformLocation 8 ''tex1''), Loc (Uniform1i (uniform_location e ''tex1'') 0),
            Prog (GetUniformLocation 8 ''tex2''), Loc (Uniform1i (uniform_location e ''tex2'') 1),
            Prog (GetUniformLocation 8 ''projection''),
            Loc (UniformMatrix4fv (uniform_location e ''projection'') False projectionMat)]"
    by (simp add: st init_transforms_fields s4_def bind_inputs_fields link_program_fields n3 t3)
  have d1: "deferred s1 =
      [Buf (DeleteBuffer 3), Buf (DeleteBuffer 2), Buf (DeleteVertexArray 1), Glfw Terminate]"
    by (simp add: s1_def upload_geometry_fields glInit_quiet glInit_ok [OF init] init_state_def)
  have d2: "deferred s2 =
      [Tex (DeleteTexture 5), Tex (DeleteTexture 4),
       Buf (DeleteBuffer 3), Buf (DeleteBuffer 2), Buf (DeleteVertexArray 1), Glfw Terminate]"
    by (simp add: s2_def load_textures_ok [OF img1 img2] n1 d1)
  have d3: "deferred s3 =
      [Sh (DeleteShader 7), Sh (DeleteShader 6), Tex (DeleteTexture 5), Tex (DeleteTexture 4),
       Buf (DeleteBuffer 3), Buf (DeleteBuffer 2), Buf (DeleteVertexArray 1), Glfw Terminate]"
    by (simp add: s3_def load_shaders_ok [OF compiled] n2 d2)
  show "deferred (snd (startup e)) =
           [Prog (DeleteProgram 8), Sh (DeleteShader 7), Sh (DeleteShader 6),
            Tex (DeleteTexture 5), Tex (DeleteTexture 4),
            Buf (DeleteBuffer 3), Buf (DeleteBuffer 2), Buf (DeleteVertexArray 1),
            Glfw Terminate]"
    by (simp add: st init_transforms_fields s4_def bind_inputs_fields link_program_fields n3 d3)
qed

lemma loadImage_ideal:
  "loadImage ideal_env filename = Inr \<lparr>Pix = [255, 0, 0, 255, 0, 255, 0, 255], Bounds = (0, 0, 2, 1)\<rparr>"
  by (simp add: loadImage_def ideal_env_def sample_image_def)

section \<open>The properties claimed of the program\<close>

subsection \<open>The spin accumulator\<close>

text \<open>
  Claim C1. Take any number \<open>n\<close> of calls of the tick (lines 229 to 232). While \<open>rotate\<close>
  is false, \<open>spinCount\<close> after the \<open>n\<close> calls is what it was before them. While \<open>rotate\<close>
  is true, \<open>spinCount\<close> after the \<open>n\<close> calls is its initial value plus \<open>n \<times> 0.0005\<close>, within
  the floating-point tolerance \<open>2 \<times> n \<times> eps\<close>: here \<open>eps\<close> bounds the error of one
  \<^verbatim>\<open>float64\<close> rounding on the range \<open>B\<close> that the accumulator stays in (one rounding for the
  constant, one for each sum). In particular, from 0 the accumulator is 1 within
  \<open>4000 \<times> eps\<close> after exactly 2000 ticks; with \<^verbatim>\<open>float64\<close>, where \<open>eps\<close> is \<open>2 ^ -53\<close> on the
  range 2, that is within \<open>4.5 \<times> 10 ^ -13\<close>.
\<close>

theorem spin_accumulator_after_ticks:
  "(\<not> rotate s \<longrightarrow> spinCount ((tick e ^^ n) s) = spinCount s) \<and>
   (rotate s \<and> rounds_within (rnd64 e) B eps \<and> 0 \<le> eps \<and>
      \<bar>spinCount s\<bar> + real n * (5 / 10000 + 2 * eps) \<le> B \<longrightarrow>
      \<bar>spinCount ((tick e ^^ n) s) - (spinCount s + real n * (5 / 10000))\<bar>
        \<le> 2 * real n * eps) \<and>
   (rotate s \<and> spinCount s = 0 \<and> rounds_within (rnd64 e) 2 eps \<and> 0 \<le> eps \<and>
      eps \<le> 1 / 4000 \<longrightarrow>
      \<bar>spinCount ((tick e ^^ 2000) s) - 1\<bar> \<le> 4000 * eps)"
proof (intro conjI impI)
  assume "\<not> rotate s"
  then show "spinCount ((tick e ^^ n) s) = spinCount s"
    by (simp add: tick_pow_disabled)
next
  assume "rotate s \<and> rounds_within (rnd64 e) B eps \<and> 0 \<le> eps \<and>
      \<bar>spinCount s\<bar> + real n * (5 / 10000 + 2 * eps) \<le> B"
  then show "\<bar>spinCount ((tick e ^^ n) s) - (spinCount s + real n * (5 / 10000))\<bar>
        \<le> 2 * real n * eps"
    using spin_drift by blast
next
  assume a: "rotate s \<and> spinCount s = 0 \<and> rounds_within (rnd64 e) 2 eps \<and> 0 \<le> eps \<and>
      eps \<le> 1 / 4000"
  then have "\<bar>spinCount s\<bar> + real 2000 * (5 / 10000 + 2 * eps) \<le> 2"
    by simp
  with a have "\<bar>spinCount ((tick e ^^ 2000) s) - (spinCount s + real 2000 * (5 / 10000))\<bar>
        \<le> 2 * real 2000 * eps"
    using spin_drift by blast
  with a show "\<bar>spinCount ((tick e ^^ 2000) s) - 1\<bar> \<le> 4000 * eps"
    by simp
qed

text \<open>
  Instances of C1: seven ticks with rotation off; three and 2000 ticks with rotation on and
  exact arithmetic; 2000 ticks with arithmetic that rounds to multiples of \<open>2 ^ -52\<close>.
\<close>

theorem spin_accumulator_after_ticks_witness:
  "spinCount ((tick ideal_env ^^ 7) (init_state\<lparr>rotate := False, spinCount := 3 / 4\<rparr>)) = 3 / 4 \<and>
   spinCount ((tick ideal_env ^^ 3) init_state) = 3 / 2000 \<and>
   spinCount ((tick ideal_env ^^ 2000) init_state) = 1 \<and>
   \<bar>spinCount ((tick grid_env ^^ 2000) init_state) - 1\<bar> \<le> 4000 / 2 ^ 53"
proof -
  have r: "rotate init_state" and z: "spinCount init_state = 0"
    by (simp_all add: init_state_def)
  have w: "rounds_within (rnd64 ideal_env) 2 0"
    by (rule rounds_within_ideal)
  have g: "rounds_within (rnd64 grid_env) 2 (1 / 2 ^ 53)"
    using grid_within [of 52 2] by (simp add: grid_env_def)
  have "spinCount ((tick ideal_env ^^ 7) (init_state\<lparr>rotate := False, spinCount := 3 / 4\<rparr>)) = 3 / 4"
    using spin_accumulator_after_ticks
      [where s = "init_state\<lparr>rotate := False, spinCount := 3 / 4\<rparr>" and e = ideal_env and n = 7]
    by simp
  moreover have "spinCount ((tick ideal_env ^^ 3) init_state) = 3 / 2000"
    using spin_accumulator_after_ticks
      [where s = init_state and e = ideal_env and n = 3 and B = 2 and eps = 0] r z w
    by simp
  moreover have "spinCount ((tick ideal_env ^^ 2000) init_state) = 1"
    using spin_accumulator_after_ticks
      [where s = init_state and e = ideal_env and n = 2000 and B = 2 and eps = 0] r z w
    by simp
  moreover have "\<bar>spinCount ((tick grid_env ^^ 2000) init_state) - 1\<bar> \<le> 4000 / 2 ^ 53"
    using spin_accumulator_after_ticks
      [where s = init_state and e = grid_env and n = 2000 and B = 2 and eps = "1 / 2 ^ 53"] r z g
    by simp
  ultimately show ?thesis by blast
qed

subsection \<open>Toggling the rotation\<close>

text \<open>
  Claim C7. Whatever the value of \<open>rotate\<close>, two presses of R in succession give back the
  state they started from, so \<open>rotate\<close> has its original value; one press flips it. The
  flip takes effect on the next tick: the frame whose poll delivers the press has already
  ticked with the old value, and the frame after it ticks with the new one (it leaves the
  accumulator and the model matrix alone when rotation was on before, and advances them
  when rotation was off before).
\<close>

theorem toggle_rotation_twice:
  "keyCallback KeyR Press (keyCallback KeyR Press s) = s \<and>
   rotate (keyCallback KeyR Press s) = (\<not> rotate s) \<and>
   rotate (frame e p [KeyEvent KeyR Press] s) = (\<not> rotate s) \<and>
   spinCount (frame e p [KeyEvent KeyR Press] s) = spinCount (tick e s) \<and>
   modelMat (frame e p [KeyEvent KeyR Press] s) = modelMat (tick e s) \<and>
   (rotate s \<longrightarrow>
      spinCount (frame e p evs (frame e p [KeyEvent KeyR Press] s)) = spinCount (tick e s) \<and>
      modelMat (frame e p evs (frame e p [KeyEvent KeyR Press] s)) = modelMat (tick e s)) \<and>
   (\<not> rotate s \<longrightarrow>
      spinCount (frame e p evs (frame e p [KeyEvent KeyR Press] s)) =
        rnd64 e (spinCount s + rnd64 e (5 / 10000)) \<and>
      modelMat (frame e p evs (frame e p [KeyEvent KeyR Press] s)) =
        Rotation (rnd32 e (rnd64 e (spinCount s * rnd64 e math_Pi))) (0, 0, 1))"
  by (simp add: frame_def Let_def pollEvents_def tick_def)

text \<open>
  Instances of C7 on the sample platform: a press while rotation is on freezes the
  accumulator at the value of the frame that polled it; a press while rotation is off
  lets the next frame advance it.
\<close>

theorem toggle_rotation_twice_witness:
  "spinCount (frame ideal_env 8 [] (frame ideal_env 8 [KeyEvent KeyR Press] init_state)) = 5 / 10000 \<and>
   spinCount (frame ideal_env 8 []
     (frame ideal_env 8 [KeyEvent KeyR Press] (init_state\<lparr>rotate := False\<rparr>))) = 5 / 10000 \<and>
   modelMat (frame ideal_env 8 []
     (frame ideal_env 8 [KeyEvent KeyR Press] (init_state\<lparr>rotate := False\<rparr>))) =
     Rotation 0 (0, 0, 1)"
proof -
  have on: "rotate init_state" and off: "\<not> rotate (init_state\<lparr>rotate := False\<rparr>)"
    by (simp_all add: init_state_def)
  have "spinCount (frame ideal_env 8 [] (frame ideal_env 8 [KeyEvent KeyR Press] init_state)) =
        spinCount (tick ideal_env init_state)"
    using toggle_rotation_twice [where s = init_state and e = ideal_env and p = 8 and evs = "[]"] on
    by blast
  then have a: "spinCount (frame ideal_env 8 []
      (frame ideal_env 8 [KeyEvent KeyR Press] init_state)) = 5 / 10000"
    by (simp add: tick_def init_state_def ideal_env_def)
  have "spinCount (frame ideal_env 8 []
          (frame ideal_env 8 [KeyEvent KeyR Press] (init_state\<lparr>rotate := False\<rparr>))) =
          rnd64 ideal_env (spinCount (init_state\<lparr>rotate := False\<rparr>) + rnd64 ideal_env (5 / 10000)) \<and>
        modelMat (frame ideal_env 8 []
          (frame ideal_env 8 [KeyEvent KeyR Press] (init_state\<lparr>rotate := False\<rparr>))) =
          Rotation (rnd32 ideal_env (rnd64 ideal_env
            (spinCount (init_state\<lparr>rotate := False\<rparr>) * rnd64 ideal_env math_Pi))) (0, 0, 1)"
    using toggle_rotation_twice
      [where s = "init_state\<lparr>rotate := False\<rparr>" and e = ideal_env and p = 8 and evs = "[]"] off
    by blast
  then have b: "spinCount (frame ideal_env 8 []
          (frame ideal_env 8 [KeyEvent KeyR Press] (init_state\<lparr>rotate := False\<rparr>))) = 5 / 10000 \<and>
        modelMat (frame ideal_env 8 []
          (frame ideal_env 8 [KeyEvent KeyR Press] (init_state\<lparr>rotate := False\<rparr>))) =
          Rotation 0 (0, 0, 1)"
    by (simp add: init_state_def ideal_env_def)
  show ?thesis
    using a b by blast
qed

subsection \<open>Compiling a shader\<close>

text \<open>
  Claim C3, as amended. For every shader stage and source string, \<^verbatim>\<open>loadShader\<close> returns
  the shader object it created. When the compile status read back is zero it returns with
  it the error \<^verbatim>\<open>Shader (<source>) did not compile.\<close>, a text that contains the offending
  source; when the status is nonzero it returns no error. Nothing is said of the shader
  stage in the text.
\<close>

theorem loadShader_result:
  "(compile_status e shaderType source = 0 \<longrightarrow>
      fst (loadShader e shaderType source s) =
        (next_name s, Some (''Shader ('' @ source @ '') did not compile.''))) \<and>
   (compile_status e shaderType source \<noteq> 0 \<longrightarrow>
      fst (loadShader e shaderType source s) = (next_name s, None)) \<and>
   sublist source (''Shader ('' @ source @ '') did not compile.'') \<and>
   trace (snd (loadShader e shaderType source s)) =
     trace s @ [Sh (CreateShader shaderType (next_name s)), Sh (ShaderSource (next_name s) source),
                Sh (CompileShader (next_name s)), Sh (GetShader (next_name s) COMPILE_STATUS)]"
proof -
  have "sublist source (''Shader ('' @ source @ '') did not compile.'')"
    by (rule sublist_appendI)
  then show ?thesis
    by (simp add: loadShader_def fresh_def Let_def)
qed

text \<open>
  Instances of C3: the vertex shader of the program on a driver that accepts it, and a
  one-line fragment shader on a driver that rejects everything.
\<close>

theorem loadShader_result_witness:
  "fst (loadShader ideal_env VERTEX_SHADER vertex_shader init_state) = (1, None) \<and>
   fst (loadShader no_compile_env FRAGMENT_SHADER ''void main() {}'' init_state) =
     (1, Some ''Shader (void main() {}) did not compile.'')"
proof -
  have ok: "compile_status ideal_env VERTEX_SHADER vertex_shader \<noteq> 0"
    by (simp add: ideal_env_def)
  have bad: "compile_status no_compile_env FRAGMENT_SHADER ''void main() {}'' = 0"
    by (simp add: no_compile_env_def)
  have n: "next_name init_state = 1"
    by (simp add: init_state_def)
  have "fst (loadShader ideal_env VERTEX_SHADER vertex_shader init_state) =
        (next_name init_state, None)"
    using loadShader_result
      [where e = ideal_env and shaderType = VERTEX_SHADER and source = vertex_shader
         and s = init_state] ok
    by blast
  moreover have "fst (loadShader no_compile_env FRAGMENT_SHADER ''void main() {}'' init_state) =
        (next_name init_state, Some (''Shader ('' @ ''void main() {}'' @ '') did not compile.''))"
    using loadShader_result
      [where e = no_compile_env and shaderType = FRAGMENT_SHADER and source = "''void main() {}''"
         and s = init_state] bad
    by blast
  ultimately show ?thesis
    unfolding n by simp
qed

text \<open>
  Claim C3 as stated fails: the error text need not contain the shader stage. On a driver
  that rejects the source \<^verbatim>\<open>void main() {}\<close>, the error for the vertex stage and the error
  for the fragment stage are the same text, \<^verbatim>\<open>Shader (void main() {}) did not compile.\<close>,
  and neither stage, printed the way \<^verbatim>\<open>%v\<close> prints it, occurs in it.
\<close>

theorem loadShader_error_omits_stage:
  "snd (fst (loadShader no_compile_env VERTEX_SHADER ''void main() {}'' init_state)) =
     Some ''Shader (void main() {}) did not compile.'' \<and>
   snd (fst (loadShader no_compile_env FRAGMENT_SHADER ''void main() {}'' init_state)) =
     Some ''Shader (void main() {}) did not compile.'' \<and>
   \<not> sublist (decimal (GLenum_value VERTEX_SHADER)) ''Shader (void main() {}) did not compile.'' \<and>
   \<not> sublist (decimal (GLenum_value FRAGMENT_SHADER)) ''Shader (void main() {}) did not compile.''"
proof -
  have a: "\<not> sublist ''35633'' ''Shader (void main() {}) did not compile.''"
    by code_simp
  have b: "\<not> sublist ''35632'' ''Shader (void main() {}) did not compile.''"
    by code_simp
  show ?thesis
    unfolding decimal_VERTEX_SHADER decimal_FRAGMENT_SHADER using a b
    by (simp add: loadShader_def fresh_def Let_def no_compile_env_def ideal_env_def)
qed

subsection \<open>Leaving the loop\<close>

text \<open>
  Claim C6. Let start-up succeed and let the loop run through the polls \<open>pre\<close>, none of
  which brings a request to close. If the poll of the next iteration delivers a press of
  Escape or of Q, then the window was still open when that iteration began (the loop was
  running), its close flag is set when that same iteration ends (closing is requested), and
  the loop exits there: the later polls are never reached, \<^verbatim>\<open>main\<close> returns, and all it still
  does is run the deferred releases. The poll is the last call of the loop, the deferred
  calls contain no draw call, and the whole run has drawn once per iteration: \<open>length pre + 1\<close>
  times.
\<close>

theorem quit_key_ends_loop:
  assumes "startup e = (Inr p, s0)"
    and "\<forall>evs\<in>set pre. \<forall>ev\<in>set evs. \<not> requests_close ev"
    and "KeyEvent key Press \<in> set evs"
    and "key = KeyEscape \<or> key = KeyQ"
  shows "\<not> shouldClose (frames e p pre s0) \<and>
         shouldClose (frame e p evs (frames e p pre s0)) \<and>
         frame_loop e p (pre @ evs # later) s0 = Some (frame e p evs (frames e p pre s0)) \<and>
         main e (pre @ evs # later) =
           Some (Returned (run_deferred (frame e p evs (frames e p pre s0)))) \<and>
         trace (run_deferred (frame e p evs (frames e p pre s0))) =
           trace (frames e p pre s0) @
           [Gl (ClearColor 0 0 0 1), Gl (Clear COLOR_BUFFER_BIT),
            Prog (GetUniformLocation p ''model''),
            Loc (UniformMatrix4fv (uniform_location e ''model'') False
                   (modelMat (tick e (frames e p pre s0)))),
            Prog (GetUniformLocation p ''view''),
            Loc (UniformMatrix4fv (uniform_location e ''view'') False
                   (LookAt (1, 0, 1) (0, 0, 0) (0, 0, 1))),
            Gl (DrawElements TRIANGLE_STRIP 4 UNSIGNED_SHORT 0),
            Glfw SwapBuffers, Glfw PollEvents] @ deferred s0 \<and>
         draw_calls (deferred s0) = 0 \<and>
         draw_calls (trace (run_deferred (frame e p evs (frames e p pre s0)))) = length pre + 1"
proof -
  let ?s = "frames e p pre s0"
  have open0: "\<not> shouldClose s0" and nodraw: "draw_calls (trace s0) = 0"
    and nodefer: "draw_calls (deferred s0) = 0"
    using startup_state [OF assms(1)] by simp_all
  have quit: "\<exists>ev\<in>set evs. requests_close ev"
    using assms(3,4) by (intro bexI [of _ "KeyEvent key Press"]) auto
  have through: "frame_loop e p (pre @ evs # later) s0 = frame_loop e p (evs # later) ?s"
    and running: "\<not> shouldClose ?s"
    using frame_loop_through [OF open0 assms(2)] by simp_all
  have closing: "shouldClose (frame e p evs ?s)"
    using quit by (simp add: frame_fields)
  have loop: "frame_loop e p (pre @ evs # later) s0 = Some (frame e p evs ?s)"
    unfolding through using frame_loop_quit [OF running quit] .
  have m: "main e (pre @ evs # later) = Some (Returned (run_deferred (frame e p evs ?s)))"
    by (simp add: main_def assms(1) loop)
  have tr: "trace (run_deferred (frame e p evs ?s)) = trace (frame e p evs ?s) @ deferred s0"
    by (simp add: frame_fields)
  have full: "trace (run_deferred (frame e p evs ?s)) =
           trace ?s @
           [Gl (ClearColor 0 0 0 1), Gl (Clear COLOR_BUFFER_BIT),
            Prog (GetUniformLocation p ''model''),
            Loc (UniformMatrix4fv (uniform_location e ''model'') False (modelMat (tick e ?s))),
            Prog (GetUniformLocation p ''view''),
            Loc (UniformMatrix4fv (uniform_location e ''view'') False
                   (LookAt (1, 0, 1) (0, 0, 0) (0, 0, 1))),
            Gl (DrawElements TRIANGLE_STRIP 4 UNSIGNED_SHORT 0),
            Glfw SwapBuffers, Glfw PollEvents] @ deferred s0"
    unfolding tr by (simp add: frame_trace)
  have "draw_calls (trace (frame e p evs ?s)) = length pre + 1"
    using nodraw by (simp add: frame_draw_calls frames_draw_calls)
  then have count: "draw_calls (trace (run_deferred (frame e p evs ?s))) = length pre + 1"
    using nodefer unfolding tr by (simp add: draw_calls_def)
  from running closing loop m full nodefer count show ?thesis
    by (intro conjI)
qed

text \<open>
  An instance of C6 on the sample platform: an idle poll, a press of R, then a press of Q;
  two more polls are on record and are never reached. Three frames are drawn.
\<close>

theorem quit_key_ends_loop_witness:
  "main ideal_env ([[], [KeyEvent KeyR Press]] @ [KeyEvent KeyQ Press] # [[], []]) =
     Some (Returned (run_deferred (frame ideal_env 8 [KeyEvent KeyQ Press]
       (frames ideal_env 8 [[], [KeyEvent KeyR Press]] (snd (startup ideal_env)))))) \<and>
   draw_calls (trace (run_deferred (frame ideal_env 8 [KeyEvent KeyQ Press]
       (frames ideal_env 8 [[], [KeyEvent KeyR Press]] (snd (startup ideal_env)))))) = 3"
proof -
  have st: "startup ideal_env = (Inr 8, snd (startup ideal_env))"
    using startup_ideal by (simp add: prod_eq_iff)
  have calm: "\<forall>evs\<in>set [[], [KeyEvent KeyR Press]]. \<forall>ev\<in>set evs. \<not> requests_close ev"
    by simp
  have k: "KeyEvent KeyQ Press \<in> set [KeyEvent KeyQ Press]"
    by simp
  have q: "KeyQ = KeyEscape \<or> KeyQ = KeyQ"
    by simp
  note T = quit_key_ends_loop [OF st calm k q, of "[[], []]"]
  from T have a: "main ideal_env ([[], [KeyEvent KeyR Press]] @ [KeyEvent KeyQ Press] # [[], []]) =
     Some (Returned (run_deferred (frame ideal_env 8 [KeyEvent KeyQ Press]
       (frames ideal_env 8 [[], [KeyEvent KeyR Press]] (snd (startup ideal_env))))))"
    by (elim conjE)
  from T have "draw_calls (trace (run_deferred (frame ideal_env 8 [KeyEvent KeyQ Press]
       (frames ideal_env 8 [[], [KeyEvent KeyR Press]] (snd (startup ideal_env)))))) =
       length [[], [KeyEvent KeyR Press]] + 1"
    by (elim conjE)
  then have b: "draw_calls (trace (run_deferred (frame ideal_env 8 [KeyEvent KeyQ Press]
       (frames ideal_env 8 [[], [KeyEvent KeyR Press]] (snd (startup ideal_env)))))) = 3"
    by simp
  show ?thesis
    using a b by (rule conjI)
qed

subsection \<open>Linking the program\<close>

lemma tick_link_status: "tick (e\<lparr>link_status := b\<rparr>) s = tick e s"
  by (simp add: tick_def)

lemma frame_link_status: "frame (e\<lparr>link_status := b\<rparr>) p evs s = frame e p evs s"
  by (simp add: frame_def tick_link_status)

lemma frame_loop_link_status:
  "frame_loop (e\<lparr>link_status := b\<rparr>) p polls s = frame_loop e p polls s"
  by (induction polls arbitrary: s) (simp_all add: frame_link_status)

lemmas strong_case_cong = prod.case_cong option.case_cong sum.case_cong if_cong

lemma glInit_link_status: "glInit (e\<lparr>link_status := b\<rparr>) s = glInit e s"
  by (simp add: glInit_def cong: strong_case_cong)

lemma loadImage_link_status: "loadImage (e\<lparr>link_status := b\<rparr>) filename = loadImage e filename"
  by (simp add: loadImage_def cong: strong_case_cong)

lemma loadTextureFromImage_link_status:
  "loadTextureFromImage (e\<lparr>link_status := b\<rparr>) filename unit s =
     loadTextureFromImage e filename unit s"
  by (simp add: loadTextureFromImage_def loadImage_link_status)

lemma load_textures_link_status: "load_textures (e\<lparr>link_status := b\<rparr>) s = load_textures e s"
  by (simp add: load_textures_def loadTextureFromImage_link_status cong: strong_case_cong)

lemma loadShader_link_status:
  "loadShader (e\<lparr>link_status := b\<rparr>) shaderType source s = loadShader e shaderType source s"
  by (simp add: loadShader_def cong: strong_case_cong)

lemma load_shaders_link_status: "load_shaders (e\<lparr>link_status := b\<rparr>) s = load_shaders e s"
  by (simp add: load_shaders_def loadShader_link_status cong: strong_case_cong)

lemma bind_inputs_link_status: "bind_inputs (e\<lparr>link_status := b\<rparr>) p s = bind_inputs e p s"
  by (simp add: bind_inputs_def)

lemma init_transforms_link_status:
  "init_transforms (e\<lparr>link_status := b\<rparr>) p s = init_transforms e p s"
  by (simp add: init_transforms_def)

lemma startup_link_status: "startup (e\<lparr>link_status := b\<rparr>) = startup e"
  by (simp add: startup_def glInit_link_status load_textures_link_status
      load_shaders_link_status bind_inputs_link_status init_transforms_link_status
      cong: strong_case_cong)

lemma main_after_startup:
  assumes "startup e = (Inr p, s0)"
  shows "main e polls = map_option (\<lambda>s. Returned (run_deferred s)) (frame_loop e p polls s0)"
  using assms by (simp add: main_def)

lemma main_link_status: "main (e\<lparr>link_status := b\<rparr>) polls = main e polls"
  by (simp add: main_def startup_link_status frame_loop_link_status cong: strong_case_cong)

text \<open>
  Claim C2 says that the link step fails with an error whenever the link status of the
  program is false. The code of lines 197 to 203 does not do that: \<^verbatim>\<open>main\<close> never reads the
  link status, so its whole behaviour is the same whether the program linked or not. On a
  driver where both shaders compile and the program does not link, \<^verbatim>\<open>main\<close> goes on to
  \<^verbatim>\<open>Use\<close> the program, draws a frame, and returns normally after a press of Q.
\<close>

theorem link_status_never_read:
  "main (e\<lparr>link_status := False\<rparr>) polls = main (e\<lparr>link_status := True\<rparr>) polls \<and>
   \<not> link_status no_link_env \<and>
   main no_link_env [[KeyEvent KeyQ Press]] =
     Some (Returned (run_deferred
       (frame no_link_env 8 [KeyEvent KeyQ Press] (snd (startup no_link_env))))) \<and>
   last (trace (snd (link_program 6 7 init_state))) = Prog (UseProgram (next_name init_state)) \<and>
   Prog (LinkProgram 8) \<in> set (trace (snd (startup no_link_env))) \<and>
   Prog (UseProgram 8) \<in> set (trace (snd (startup no_link_env))) \<and>
   draw_calls (trace (run_deferred
     (frame no_link_env 8 [KeyEvent KeyQ Press] (snd (startup no_link_env))))) = 1"
proof -
  let ?s0 = "snd (startup no_link_env)"
  have same: "startup no_link_env = startup ideal_env"
    unfolding no_link_env_def by (rule startup_link_status)
  have st: "startup no_link_env = (Inr 8, ?s0)"
    using startup_ideal unfolding same by (simp add: prod_eq_iff)
  have fine: "glfw_init ideal_env" "create_window ideal_env = None" "gl_init ideal_env = 0"
    "compile_status ideal_env VERTEX_SHADER vertex_shader \<noteq> 0"
    "compile_status ideal_env FRAGMENT_SHADER fragment_shader \<noteq> 0"
    by (simp_all add: ideal_env_def)
  note tr = startup_ok(2) [OF fine(1-3) loadImage_ideal loadImage_ideal fine(4,5)]
  have calm: "\<forall>evs\<in>set []. \<forall>ev\<in>set evs. \<not> requests_close ev"
    by simp
  have loop: "frame_loop no_link_env 8 [[KeyEvent KeyQ Press]] ?s0 =
      Some (frame no_link_env 8 [KeyEvent KeyQ Press] ?s0)"
    by (intro frame_loop_quit) (simp_all add: startup_quiet)
  have m: "main no_link_env [[KeyEvent KeyQ Press]] =
      Some (Returned (run_deferred (frame no_link_env 8 [KeyEvent KeyQ Press] ?s0)))"
    using main_after_startup [OF st, of "[[KeyEvent KeyQ Press]]"] unfolding loop by simp
  have "draw_calls (trace (frame no_link_env 8 [KeyEvent KeyQ Press] ?s0)) = 1"
    using startup_state(5) [OF st] by (simp add: frame_draw_calls)
  then have count: "draw_calls (trace (run_deferred
      (frame no_link_env 8 [KeyEvent KeyQ Press] ?s0))) = 1"
    using startup_state(6) [OF st] by (simp add: frame_fields draw_calls_def)
  have "main (e\<lparr>link_status := False\<rparr>) polls = main (e\<lparr>link_status := True\<rparr>) polls"
    by (simp add: main_link_status)
  moreover have "\<not> link_status no_link_env"
    by (simp add: no_link_env_def)
  moreover have "last (trace (snd (link_program 6 7 init_state))) =
      Prog (UseProgram (next_name init_state))"
    by (simp add: link_program_fields)
  moreover have "Prog (LinkProgram 8) \<in> set (trace ?s0)" "Prog (UseProgram 8) \<in> set (trace ?s0)"
    unfolding same tr by simp_all
  ultimately show ?thesis
    using m count by (intro conjI)
qed

subsection \<open>The projection matrix\<close>

text \<open>
  Claim C4 says that the aspect ratio of the projection is the ratio of the window's
  logical size, 640 over 480. The code of line 219 passes \<^verbatim>\<open>640/480\<close>, which Go evaluates
  as a quotient of integer constants: the aspect ratio handed to \<^verbatim>\<open>glam.Perspective\<close> is 1,
  not \<open>4/3\<close>, although the window is created 640 by 480. The other arguments are as the
  claim says (45, 1 and 10), and the matrix is uploaded once, before the loop.
\<close>

theorem projection_aspect_is_one:
  "projectionMat = Perspective 45 1 1 10 \<and>
   projectionMat \<noteq> Perspective 45 (640 / 480) 1 10 \<and>
   Glfw (CreateWindow 640 480 ''OpenGL Textures'') \<in> set (trace (snd (startup ideal_env))) \<and>
   last (trace (snd (startup ideal_env))) =
     Loc (UniformMatrix4fv (uniform_location ideal_env ''projection'') False
            (Perspective 45 1 1 10))"
proof -
  have fine: "glfw_init ideal_env" "create_window ideal_env = None" "gl_init ideal_env = 0"
    "compile_status ideal_env VERTEX_SHADER vertex_shader \<noteq> 0"
    "compile_status ideal_env FRAGMENT_SHADER fragment_shader \<noteq> 0"
    by (simp_all add: ideal_env_def)
  note tr = startup_ok(2) [OF fine(1-3) loadImage_ideal loadImage_ideal fine(4,5)]
  have p: "projectionMat = Perspective 45 1 1 10"
    by (simp add: projectionMat_def)
  have "projectionMat \<noteq> Perspective 45 (640 / 480) 1 10"
    unfolding p by simp
  moreover have "Glfw (CreateWindow 640 480 ''OpenGL Textures'') \<in>
      set (trace (snd (startup ideal_env)))"
    unfolding tr by simp
  moreover have "last (trace (snd (startup ideal_env))) =
     Loc (UniformMatrix4fv (uniform_location ideal_env ''projection'') False
            (Perspective 45 1 1 10))"
    unfolding tr by (simp add: p)
  ultimately show ?thesis
    using p by (intro conjI)
qed

subsection \<open>The geometry\<close>

text \<open>
  Claim C5. The vertex data are four vertices in the interleaved format of two position
  floats and two texture-coordinate floats each. The positions are the corners
  \<open>(\<plusminus>1/2, \<plusminus>1/2)\<close> of the square of side 1 centred at the origin. The indices are
  \<open>0, 1, 2, 3\<close>. The vertex buffer is uploaded with a byte size of vertex count times
  stride, where the stride of 16 bytes is the one both attribute pointers declare and is
  four floats; the index buffer is uploaded with a byte size of index count times the
  width of an unsigned short. Every frame draws the four indices as a triangle strip.
\<close>

theorem quad_geometry:
  "interleaved vertices =
     [((- 1 / 2, - 1 / 2), (0, 1)), ((1 / 2, - 1 / 2), (1, 1)),
      ((- 1 / 2, 1 / 2), (0, 0)), ((1 / 2, 1 / 2), (1, 0))] \<and>
   length vertices = 4 * length (interleaved vertices) \<and>
   set (map fst (interleaved vertices)) = {- 1 / 2, 1 / 2} \<times> {- 1 / 2, 1 / 2} \<and>
   sum_list (map (fst \<circ> fst) (interleaved vertices)) = 0 \<and>
   sum_list (map (snd \<circ> fst) (interleaved vertices)) = 0 \<and>
   elements = [0, 1, 2, 3] \<and>
   trace (upload_geometry s) =
     trace s @
     [Buf (GenVertexArray (next_name s)), Buf (BindVertexArray (next_name s)),
      Buf (GenBuffer (next_name s + 1)), Buf (BindBuffer (next_name s + 1) ARRAY_BUFFER),
      Buf (BufferDataFloat ARRAY_BUFFER (int (length (interleaved vertices)) * 16)
             vertices STATIC_DRAW),
      Buf (GenBuffer (next_name s + 2)),
      Buf (BindBuffer (next_name s + 2) ELEMENT_ARRAY_BUFFER),
      Buf (BufferDataUshort ELEMENT_ARRAY_BUFFER (int (length elements) * sizeof UNSIGNED_SHORT)
             elements STATIC_DRAW)] \<and>
   trace (bind_inputs e p s) =
     trace s @
     [Prog (GetAttribLocation p ''position''),
      Loc (AttribPointer (attrib_location e ''position'') 2 FLOAT False 16 0),
      Loc (EnableArray (attrib_location e ''position'')),
      Prog (GetAttribLocation p ''textureCoord''),
      Loc (AttribPointer (attrib_location e ''textureCoord'') 2 FLOAT False 16 (2 * 4)),
      Loc (EnableArray (attrib_location e ''textureCoord'')),
      Prog (GetUniformLocation p ''tex1''), Loc (Uniform1i (uniform_location e ''tex1'') 0),
      Prog (GetUniformLocation p ''tex2''), Loc (Uniform1i (uniform_location e ''tex2'') 1)] \<and>
   (16 :: int) = (2 + 2) * sizeof FLOAT \<and>
   Gl (DrawElements TRIANGLE_STRIP (int (length elements)) UNSIGNED_SHORT 0) \<in>
     set (trace (frame e p evs s))"
proof -
  have v: "interleaved vertices =
     [((- 1 / 2, - 1 / 2), (0, 1)), ((1 / 2, - 1 / 2), (1, 1)),
      ((- 1 / 2, 1 / 2), (0, 0)), ((1 / 2, 1 / 2), (1, 0))]"
    by (simp add: vertices_def)
  have n: "length vertices = 4 * length (interleaved vertices)"
    unfolding v by (simp add: vertices_def)
  have corners: "set (map fst (interleaved vertices)) = {- 1 / 2, 1 / 2} \<times> {- 1 / 2, 1 / 2}"
    unfolding v by auto
  have centre: "sum_list (map (fst \<circ> fst) (interleaved vertices)) = 0"
    "sum_list (map (snd \<circ> fst) (interleaved vertices)) = 0"
    unfolding v by simp_all
  have el: "elements = [0, 1, 2, 3]"
    by (simp add: elements_def)
  have up: "trace (upload_geometry s) =
     trace s @
     [Buf (GenVertexArray (next_name s)), Buf (BindVertexArray (next_name s)),
      Buf (GenBuffer (next_name s + 1)), Buf (BindBuffer (next_name s + 1) ARRAY_BUFFER),
      Buf (BufferDataFloat ARRAY_BUFFER (int (length (interleaved vertices)) * 16)
             vertices STATIC_DRAW),
      Buf (GenBuffer (next_name s + 2)),
      Buf (BindBuffer (next_name s + 2) ELEMENT_ARRAY_BUFFER),
      Buf (BufferDataUshort ELEMENT_ARRAY_BUFFER (int (length elements) * sizeof UNSIGNED_SHORT)
             elements STATIC_DRAW)]"
    unfolding upload_geometry_trace v by (simp add: elements_def)
  have bind: "trace (bind_inputs e p s) =
     trace s @
     [Prog (GetAttribLocation p ''position''),
      Loc (AttribPointer (attrib_location e ''position'') 2 FLOAT False 16 0),
      Loc (EnableArray (attrib_location e ''position'')),
      Prog (GetAttribLocation p ''textureCoord''),
      Loc (AttribPointer (attrib_location e ''textureCoord'') 2 FLOAT False 16 (2 * 4)),
      Loc (EnableArray (attrib_location e ''textureCoord'')),
      Prog (GetUniformLocation p ''tex1''), Loc (Uniform1i (uniform_location e ''tex1'') 0),
      Prog (GetUniformLocation p ''tex2''), Loc (Uniform1i (uniform_location e ''tex2'') 1)]"
    by (simp add: bind_inputs_fields)
  have stride: "(16 :: int) = (2 + 2) * sizeof FLOAT"
    by simp
  have draw: "Gl (DrawElements TRIANGLE_STRIP (int (length elements)) UNSIGNED_SHORT 0) \<in>
     set (trace (frame e p evs s))"
    by (simp add: frame_trace elements_def)
  from v n corners centre el up bind stride draw show ?thesis
    by (intro conjI)
qed

subsection \<open>Loading the textures\<close>

text \<open>
  Claim C8. When the two image files load, lines 169 to 183 do the following for the
  first image on texture unit 0 and then, with a texture object of its own, for the second
  image on texture unit 1: generate a texture object, activate the unit, bind the texture
  to the 2-D target, upload the pixels as mip level 0 with RGBA as internal and as source
  format and unsigned byte as component type, and set the minification and the
  magnification filter to linear. \<^verbatim>\<open>loadTextureFromImage\<close> does the steps up to the upload
  and decodes the file itself; \<^verbatim>\<open>main\<close> sets the two filters right after each call, while
  the texture is still bound on the active unit. Both texture objects are deferred for
  deletion.
\<close>

theorem textures_loaded_on_both_units:
  assumes "loadImage e ''sloth_n_banana.jpg'' = Inr img1"
    and "loadImage e ''sloth_n_kebab.jpg'' = Inr img2"
  shows "fst (load_textures e s) = None \<and>
         fst (loadTextureFromImage e ''sloth_n_banana.jpg'' TEXTURE0 s) = (next_name s, None) \<and>
         trace (snd (loadTextureFromImage e ''sloth_n_banana.jpg'' TEXTURE0 s)) =
           trace s @
           [Tex (GenTexture (next_name s)), Tex (ActiveTexture TEXTURE0),
            Tex (BindTexture (next_name s) TEXTURE_2D),
            Tex (TexImage2D TEXTURE_2D 0 RGBA (Dx (Bounds img1)) (Dy (Bounds img1)) 0
                   RGBA UNSIGNED_BYTE (Pix img1))] \<and>
         trace (snd (load_textures e s)) =
           trace s @
           [Tex (GenTexture (next_name s)), Tex (ActiveTexture TEXTURE0),
            Tex (BindTexture (next_name s) TEXTURE_2D),
            Tex (TexImage2D TEXTURE_2D 0 RGBA (Dx (Bounds img1)) (Dy (Bounds img1)) 0
                   RGBA UNSIGNED_BYTE (Pix img1)),
            Tex (TexParameteri TEXTURE_2D TEXTURE_MIN_FILTER LINEAR),
            Tex (TexParameteri TEXTURE_2D TEXTURE_MAG_FILTER LINEAR),
            Tex (GenTexture (next_name s + 1)), Tex (ActiveTexture TEXTURE1),
            Tex (BindTexture (next_name s + 1) TEXTURE_2D),
            Tex (TexImage2D TEXTURE_2D 0 RGBA (Dx (Bounds img2)) (Dy (Bounds img2)) 0
                   RGBA UNSIGNED_BYTE (Pix img2)),
            Tex (TexParameteri TEXTURE_2D TEXTURE_MIN_FILTER LINEAR),
            Tex (TexParameteri TEXTURE_2D TEXTURE_MAG_FILTER LINEAR)] \<and>
         deferred (snd (load_textures e s)) =
           [Tex (DeleteTexture (next_name s + 1)), Tex (DeleteTexture (next_name s))] @ deferred s"
  using load_textures_ok(1,2,3) [OF assms, of s]
    loadTextureFromImage_ok(1,2) [OF assms(1), of TEXTURE0 s]
  by (intro conjI)

text \<open>
  An instance of C8: the sample platform, whose decoder yields an image of two pixels by
  one, at the point of \<^verbatim>\<open>main\<close> where three objects exist already.
\<close>

theorem textures_loaded_on_both_units_witness:
  "trace (snd (load_textures ideal_env (init_state\<lparr>next_name := 4\<rparr>))) =
     [Tex (GenTexture 4), Tex (ActiveTexture TEXTURE0), Tex (BindTexture 4 TEXTURE_2D),
      Tex (TexImage2D TEXTURE_2D 0 RGBA 2 1 0 RGBA UNSIGNED_BYTE [255, 0, 0, 255, 0, 255, 0, 255]),
      Tex (TexParameteri TEXTURE_2D TEXTURE_MIN_FILTER LINEAR),
      Tex (TexParameteri TEXTURE_2D TEXTURE_MAG_FILTER LINEAR),
      Tex (GenTexture 5), Tex (ActiveTexture TEXTURE1), Tex (BindTexture 5 TEXTURE_2D),
      Tex (TexImage2D TEXTURE_2D 0 RGBA 2 1 0 RGBA UNSIGNED_BYTE [255, 0, 0, 255, 0, 255, 0, 255]),
      Tex (TexParameteri TEXTURE_2D TEXTURE_MIN_FILTER LINEAR),
      Tex (TexParameteri TEXTURE_2D TEXTURE_MAG_FILTER LINEAR)]"
  using textures_loaded_on_both_units
    [OF loadImage_ideal loadImage_ideal, where s = "init_state\<lparr>next_name := 4\<rparr>"]
  by (simp add: init_state_def)

subsection \<open>The angle rendered on an enabled frame\<close>

lemma angle_after_enabled_frames:
  assumes start: "spinCount s0 = 0"
    and nth: "N = Suc (enabled_frames e p polls s0)"
    and r64: "rounds_within (rnd64 e) B eps"
    and r32: "rounds_within (rnd32 e) B eps32"
    and eps0: "0 \<le> eps"
    and PiB: "math_Pi \<le> B"
    and room: "real (N - 1) * (5 / 10000 + 2 * eps) * (math_Pi + eps) + eps \<le> B"
  shows "\<bar>rnd32 e (rnd64 e (spinCount (frames e p polls s0) * rnd64 e math_Pi)) -
            real (N - 1) * (5 / 10000) * math_Pi\<bar>
           \<le> eps32 + eps * (1 + real (N - 1) * (5 / 10000 + 2 * eps)) +
               math_Pi * (2 * real (N - 1) * eps)"
proof -
  define k where "k = enabled_frames e p polls s0"
  define t where "t = real k * (5 / 10000)"
  define d where "d = 2 * real k * eps"
  define s where "s = frames e p polls s0"
  have N: "N - 1 = k"
    by (simp add: nth k_def)
  have sum: "real k * (5 / 10000 + 2 * eps) = t + d"
    by (simp add: t_def d_def algebra_simps)
  have t0: "0 \<le> t" and d0: "0 \<le> d"
    using eps0 by (simp_all add: t_def d_def)
  have Pi1: "1 \<le> math_Pi + eps"
    using eps0 by (simp add: math_Pi_def)
  have room': "(t + d) * (math_Pi + eps) + eps \<le> B"
    using room unfolding N sum .
  define q where "q = (t + d) * (math_Pi + eps)"
  have "(t + d) * 1 \<le> q"
    unfolding q_def using t0 d0 Pi1 by (intro mult_left_mono) simp_all
  then have "t + d \<le> q"
    by simp
  moreover have "q + eps \<le> B"
    using room' unfolding q_def .
  ultimately have fits: "t + d \<le> B"
    using eps0 by linarith
  let ?on = "s0\<lparr>rotate := True\<rparr>"
  have x: "spinCount s = spinCount ((tick e ^^ k) ?on)"
    unfolding s_def k_def by (rule frames_spin)
  have "\<bar>spinCount ?on\<bar> + real k * (5 / 10000 + 2 * eps) \<le> B"
    unfolding sum using fits by (simp add: start)
  then have "\<bar>spinCount ((tick e ^^ k) ?on) - (spinCount ?on + real k * (5 / 10000))\<bar>
      \<le> 2 * real k * eps"
    by (intro spin_drift [OF _ r64 eps0]) simp_all
  then have near: "\<bar>spinCount s - t\<bar> \<le> d"
    unfolding x t_def d_def by (simp add: start)
  have "\<bar>rnd32 e (rnd64 e (spinCount s * rnd64 e math_Pi)) - t * math_Pi\<bar>
      \<le> eps32 + eps * (1 + t + d) + math_Pi * d"
    by (rule angle_error [OF r64 r32 eps0 PiB near t0 room'])
  then show ?thesis
    unfolding N sum s_def by (simp add: t_def d_def add.assoc)
qed

text \<open>
  Claim C9. On a frame that starts with rotation enabled, the model matrix pushed to the
  \<^verbatim>\<open>model\<close> uniform is the rotation about the Z axis whose angle is computed from the value
  the accumulator has before this frame's increment, times \<^verbatim>\<open>math.Pi\<close>; the increment comes
  after. Hence on the \<open>N\<close>th enabled frame, counted from a state with accumulator 0 through
  any history of frames (however many disabled ones lie in between), the angle is
  \<open>(N - 1) \<times> 0.0005 \<times> math.Pi\<close> and not \<open>N \<times> 0.0005 \<times> math.Pi\<close>: exactly so when arithmetic is
  exact, and in general within the tolerance that the roundings of the accumulator, of the
  constant, of the product and of the conversion to \<^verbatim>\<open>float32\<close> add up to.
\<close>

theorem rendered_angle:
  "(rotate s \<longrightarrow>
      trace (frame e p evs s) =
        trace s @
        [Gl (ClearColor 0 0 0 1), Gl (Clear COLOR_BUFFER_BIT),
         Prog (GetUniformLocation p ''model''),
         Loc (UniformMatrix4fv (uniform_location e ''model'') False
                (Rotation (rnd32 e (rnd64 e (spinCount s * rnd64 e math_Pi))) (0, 0, 1))),
         Prog (GetUniformLocation p ''view''),
         Loc (UniformMatrix4fv (uniform_location e ''view'') False
                (LookAt (1, 0, 1) (0, 0, 0) (0, 0, 1))),
         Gl (DrawElements TRIANGLE_STRIP 4 UNSIGNED_SHORT 0),
         Glfw SwapBuffers, Glfw PollEvents] \<and>
      spinCount (frame e p evs s) = rnd64 e (spinCount s + rnd64 e (5 / 10000))) \<and>
   (spinCount s0 = 0 \<and> rotate (frames e p polls s0) \<and>
    N = Suc (enabled_frames e p polls s0) \<and>
    rounds_within (rnd64 e) B eps \<and> rounds_within (rnd32 e) B eps32 \<and> 0 \<le> eps \<and>
    math_Pi \<le> B \<and>
    real (N - 1) * (5 / 10000 + 2 * eps) * (math_Pi + eps) + eps \<le> B \<longrightarrow>
      \<bar>rnd32 e (rnd64 e (spinCount (frames e p polls s0) * rnd64 e math_Pi)) -
         real (N - 1) * (5 / 10000) * math_Pi\<bar>
        \<le> eps32 + eps * (1 + real (N - 1) * (5 / 10000 + 2 * eps)) +
            math_Pi * (2 * real (N - 1) * eps))"
proof (intro conjI impI)
  assume on: "rotate s"
  have m: "modelMat (tick e s) =
      Rotation (rnd32 e (rnd64 e (spinCount s * rnd64 e math_Pi))) (0, 0, 1)"
    using on by (simp add: tick_def Let_def)
  show "trace (frame e p evs s) =
        trace s @
        [Gl (ClearColor 0 0 0 1), Gl (Clear COLOR_BUFFER_BIT),
         Prog (GetUniformLocation p ''model''),
         Loc (UniformMatrix4fv (uniform_location e ''model'') False
                (Rotation (rnd32 e (rnd64 e (spinCount s * rnd64 e math_Pi))) (0, 0, 1))),
         Prog (GetUniformLocation p ''view''),
         Loc (UniformMatrix4fv (uniform_location e ''view'') False
                (LookAt (1, 0, 1) (0, 0, 0) (0, 0, 1))),
         Gl (DrawElements TRIANGLE_STRIP 4 UNSIGNED_SHORT 0),
         Glfw SwapBuffers, Glfw PollEvents]"
    unfolding frame_trace m ..
  show "spinCount (frame e p evs s) = rnd64 e (spinCount s + rnd64 e (5 / 10000))"
    using on by (simp add: frame_fields tick_spin_enabled)
next
  assume a: "spinCount s0 = 0 \<and> rotate (frames e p polls s0) \<and>
    N = Suc (enabled_frames e p polls s0) \<and>
    rounds_within (rnd64 e) B eps \<and> rounds_within (rnd32 e) B eps32 \<and> 0 \<le> eps \<and>
    math_Pi \<le> B \<and>
    real (N - 1) * (5 / 10000 + 2 * eps) * (math_Pi + eps) + eps \<le> B"
  show "\<bar>rnd32 e (rnd64 e (spinCount (frames e p polls s0) * rnd64 e math_Pi)) -
         real (N - 1) * (5 / 10000) * math_Pi\<bar>
        \<le> eps32 + eps * (1 + real (N - 1) * (5 / 10000 + 2 * eps)) +
            math_Pi * (2 * real (N - 1) * eps)"
  proof (rule angle_after_enabled_frames)
    show "spinCount s0 = 0" "N = Suc (enabled_frames e p polls s0)"
      "rounds_within (rnd64 e) B eps" "rounds_within (rnd32 e) B eps32" "0 \<le> eps"
      "math_Pi \<le> B"
      "real (N - 1) * (5 / 10000 + 2 * eps) * (math_Pi + eps) + eps \<le> B"
      using a by blast+
  qed
qed

text \<open>
  An instance of C9 on the sample platform, where arithmetic is exact: two enabled frames,
  the second of which polls a press of R; a disabled frame, which polls another press of R;
  then the third enabled frame. Its angle is \<open>2 \<times> 0.0005 \<times> math.Pi\<close>, and it leaves the
  accumulator at \<open>3 \<times> 0.0005\<close>.
\<close>

theorem rendered_angle_witness:
  "Loc (UniformMatrix4fv 0 False (Rotation (2 * (5 / 10000) * math_Pi) (0, 0, 1))) \<in>
     set (trace (frame ideal_env 8 []
       (frames ideal_env 8 [[], [KeyEvent KeyR Press], [KeyEvent KeyR Press]] init_state))) \<and>
   spinCount (frame ideal_env 8 []
       (frames ideal_env 8 [[], [KeyEvent KeyR Press], [KeyEvent KeyR Press]] init_state)) =
     3 * (5 / 10000)"
proof -
  let ?polls = "[[], [KeyEvent KeyR Press], [KeyEvent KeyR Press]]"
  let ?s = "frames ideal_env 8 ?polls init_state"
  have start: "spinCount init_state = 0"
    by (simp add: init_state_def)
  have on: "rotate ?s"
    by (simp add: frame_def Let_def pollEvents_def init_state_def)
  have nth: "3 = Suc (enabled_frames ideal_env 8 ?polls init_state)"
    by (simp add: frame_def Let_def pollEvents_def init_state_def)
  have PiB: "math_Pi \<le> 4"
    by (simp add: math_Pi_def)
  have room: "real (3 - 1) * (5 / 10000 + 2 * 0) * (math_Pi + 0) + 0 \<le> 4"
    by (simp add: math_Pi_def)
  note T = rendered_angle
    [where s = ?s and e = ideal_env and p = 8 and evs = "[]" and ?s0.0 = init_state
       and polls = ?polls and N = 3 and B = 4 and eps = 0 and ?eps32.0 = 0]
  have two: "spinCount ?s = 2 * (5 / 10000)"
    by (simp add: frames_spin frame_def Let_def pollEvents_def init_state_def tick_def
        ideal_env_def numeral_2_eq_2)
  from T start on nth rounds_within_ideal [of 4] PiB room
  have "\<bar>rnd32 ideal_env (rnd64 ideal_env (spinCount ?s * rnd64 ideal_env math_Pi)) -
      real (3 - 1) * (5 / 10000) * math_Pi\<bar> \<le> 0 + 0 * (1 + real (3 - 1) * (5 / 10000 + 2 * 0)) +
            math_Pi * (2 * real (3 - 1) * 0)"
    by blast
  then have angle: "rnd32 ideal_env (rnd64 ideal_env (spinCount ?s * rnd64 ideal_env math_Pi)) =
      2 * (5 / 10000) * math_Pi"
    by simp
  from T on have "trace (frame ideal_env 8 [] ?s) =
        trace ?s @
        [Gl (ClearColor 0 0 0 1), Gl (Clear COLOR_BUFFER_BIT),
         Prog (GetUniformLocation 8 ''model''),
         Loc (UniformMatrix4fv (uniform_location ideal_env ''model'') False
                (Rotation (rnd32 ideal_env (rnd64 ideal_env
                   (spinCount ?s * rnd64 ideal_env math_Pi))) (0, 0, 1))),
         Prog (GetUniformLocation 8 ''view''),
         Loc (UniformMatrix4fv (uniform_location ideal_env ''view'') False
                (LookAt (1, 0, 1) (0, 0, 0) (0, 0, 1))),
         Gl (DrawElements TRIANGLE_STRIP 4 UNSIGNED_SHORT 0),
         Glfw SwapBuffers, Glfw PollEvents]"
    by blast
  then have a: "Loc (UniformMatrix4fv 0 False (Rotation (2 * (5 / 10000) * math_Pi) (0, 0, 1))) \<in>
      set (trace (frame ideal_env 8 [] ?s))"
    unfolding angle by (simp add: ideal_env_def)
  from T on have "spinCount (frame ideal_env 8 [] ?s) =
      rnd64 ideal_env (spinCount ?s + rnd64 ideal_env (5 / 10000))"
    by blast
  then have b: "spinCount (frame ideal_env 8 [] ?s) = 3 * (5 / 10000)"
    unfolding two by (simp add: ideal_env_def)
  from a b show ?thesis
    by (rule conjI)
qed

subsection \<open>Frames with rotation disabled\<close>

lemma frames_model_frozen:
  "enabled_frames e p polls s = 0 \<Longrightarrow> modelMat (frames e p polls s) = modelMat s"
proof (induction polls arbitrary: s)
  case Nil
  then show ?case by simp
next
  case (Cons evs polls)
  then have off: "\<not> rotate s" and rest: "enabled_frames e p polls (frame e p evs s) = 0"
    by (simp_all split: if_splits)
  show ?case
    using Cons.IH [OF rest] off by (simp add: frame_fields tick_disabled)
qed

text \<open>
  Claim C10. A frame that starts with rotation disabled leaves the model matrix (and the
  accumulator) exactly as they were, and still pushes that unchanged matrix to the \<^verbatim>\<open>model\<close>
  uniform. The matrix is the identity when start-up ends. So over any run of frames none of
  which is enabled the matrix stays what it was; and after an enabled frame followed by
  such a run it is still the rotation that the enabled frame computed: disabling rotation
  freezes the orientation and does not reset it.
\<close>

theorem disabled_frame_keeps_model:
  "(\<not> rotate s \<longrightarrow>
      modelMat (frame e p evs s) = modelMat s \<and>
      spinCount (frame e p evs s) = spinCount s \<and>
      trace (frame e p evs s) =
        trace s @
        [Gl (ClearColor 0 0 0 1), Gl (Clear COLOR_BUFFER_BIT),
         Prog (GetUniformLocation p ''model''),
         Loc (UniformMatrix4fv (uniform_location e ''model'') False (modelMat s)),
         Prog (GetUniformLocation p ''view''),
         Loc (UniformMatrix4fv (uniform_location e ''view'') False
                (LookAt (1, 0, 1) (0, 0, 0) (0, 0, 1))),
         Gl (DrawElements TRIANGLE_STRIP 4 UNSIGNED_SHORT 0),
         Glfw SwapBuffers, Glfw PollEvents]) \<and>
   (fst (startup e) = Inr p \<longrightarrow> modelMat (snd (startup e)) = Identity) \<and>
   (enabled_frames e p polls s = 0 \<longrightarrow> modelMat (frames e p polls s) = modelMat s) \<and>
   (rotate s \<and> enabled_frames e p polls (frame e p evs s) = 0 \<longrightarrow>
      modelMat (frames e p polls (frame e p evs s)) =
        Rotation (rnd32 e (rnd64 e (spinCount s * rnd64 e math_Pi))) (0, 0, 1))"
proof (intro conjI impI)
  assume off: "\<not> rotate s"
  show "modelMat (frame e p evs s) = modelMat s" "spinCount (frame e p evs s) = spinCount s"
    using off by (simp_all add: frame_fields tick_disabled)
  show "trace (frame e p evs s) =
        trace s @
        [Gl (ClearColor 0 0 0 1), Gl (Clear COLOR_BUFFER_BIT),
         Prog (GetUniformLocation p ''model''),
         Loc (UniformMatrix4fv (uniform_location e ''model'') False (modelMat s)),
         Prog (GetUniformLocation p ''view''),
         Loc (UniformMatrix4fv (uniform_location e ''view'') False
                (LookAt (1, 0, 1) (0, 0, 0) (0, 0, 1))),
         Gl (DrawElements TRIANGLE_STRIP 4 UNSIGNED_SHORT 0),
         Glfw SwapBuffers, Glfw PollEvents]"
    using off by (simp add: frame_trace tick_disabled)
next
  assume "fst (startup e) = Inr p"
  then show "modelMat (snd (startup e)) = Identity"
    by (rule startup_transforms)
next
  assume "enabled_frames e p polls s = 0"
  then show "modelMat (frames e p polls s) = modelMat s"
    by (rule frames_model_frozen)
next
  assume a: "rotate s \<and> enabled_frames e p polls (frame e p evs s) = 0"
  then have "modelMat (frames e p polls (frame e p evs s)) = modelMat (frame e p evs s)"
    by (intro frames_model_frozen) simp
  also have "\<dots> = Rotation (rnd32 e (rnd64 e (spinCount s * rnd64 e math_Pi))) (0, 0, 1)"
    using a by (simp add: frame_fields tick_def Let_def)
  finally show "modelMat (frames e p polls (frame e p evs s)) =
      Rotation (rnd32 e (rnd64 e (spinCount s * rnd64 e math_Pi))) (0, 0, 1)" .
qed

text \<open>
  Instances of C10 on the sample platform. The matrix is the identity after start-up. Of
  three frames, the first is enabled and polls a press of R; the two after it are disabled
  and leave the matrix at the rotation by \<open>0 \<times> math.Pi\<close> that the first one computed, and
  the accumulator at \<open>0.0005\<close>; the third pushes that same matrix.
\<close>

theorem disabled_frame_keeps_model_witness:
  "modelMat (snd (startup ideal_env)) = Identity \<and>
   modelMat (frames ideal_env 8 [[], []] (frame ideal_env 8 [KeyEvent KeyR Press] init_state)) =
     Rotation 0 (0, 0, 1) \<and>
   modelMat (frames ideal_env 8 [[], []] (init_state\<lparr>rotate := False\<rparr>)) = Identity \<and>
   Loc (UniformMatrix4fv 0 False (Rotation 0 (0, 0, 1))) \<in>
     set (trace (frame ideal_env 8 []
       (frames ideal_env 8 [[]] (frame ideal_env 8 [KeyEvent KeyR Press] init_state))))"
proof -
  let ?s1 = "frame ideal_env 8 [KeyEvent KeyR Press] init_state"
  let ?s2 = "frames ideal_env 8 [[]] ?s1"
  let ?off = "init_state\<lparr>rotate := False\<rparr>"
  have on: "rotate init_state"
    by (simp add: init_state_def)
  have off1: "\<not> rotate ?s1" and off2: "\<not> rotate ?s2"
    by (simp_all add: frame_def Let_def pollEvents_def init_state_def)
  have none: "enabled_frames ideal_env 8 [[], []] ?s1 = 0"
    "enabled_frames ideal_env 8 [[]] ?s1 = 0"
    "enabled_frames ideal_env 8 [[], []] ?off = 0"
    by (simp_all add: frame_def Let_def pollEvents_def init_state_def)
  have a: "modelMat (snd (startup ideal_env)) = Identity"
    using disabled_frame_keeps_model [where e = ideal_env and p = 8] startup_ideal
    by blast
  have "modelMat (frames ideal_env 8 [[], []] ?s1) =
      Rotation (rnd32 ideal_env (rnd64 ideal_env
        (spinCount init_state * rnd64 ideal_env math_Pi))) (0, 0, 1)"
    using disabled_frame_keeps_model
      [where e = ideal_env and p = 8 and s = init_state and evs = "[KeyEvent KeyR Press]"
         and polls = "[[], []]"] on none(1)
    by blast
  then have b: "modelMat (frames ideal_env 8 [[], []] ?s1) = Rotation 0 (0, 0, 1)"
    by (simp add: init_state_def ideal_env_def)
  have "modelMat (frames ideal_env 8 [[], []] ?off) = modelMat ?off"
    using disabled_frame_keeps_model
      [where e = ideal_env and p = 8 and s = ?off and polls = "[[], []]"] none(3)
    by blast
  then have c: "modelMat (frames ideal_env 8 [[], []] ?off) = Identity"
    by (simp add: init_state_def)
  have m2: "modelMat ?s2 = Rotation 0 (0, 0, 1)"
    using disabled_frame_keeps_model
      [where e = ideal_env and p = 8 and s = init_state and evs = "[KeyEvent KeyR Press]"
         and polls = "[[]]"] on none(2)
    by (simp add: init_state_def ideal_env_def)
  have "trace (frame ideal_env 8 [] ?s2) =
        trace ?s2 @
        [Gl (ClearColor 0 0 0 1), Gl (Clear COLOR_BUFFER_BIT),
         Prog (GetUniformLocation 8 ''model''),
         Loc (UniformMatrix4fv (uniform_location ideal_env ''model'') False (modelMat ?s2)),
         Prog (GetUniformLocation 8 ''view''),
         Loc (UniformMatrix4fv (uniform_location ideal_env ''view'') False
                (LookAt (1, 0, 1) (0, 0, 0) (0, 0, 1))),
         Gl (DrawElements TRIANGLE_STRIP 4 UNSIGNED_SHORT 0),
         Glfw SwapBuffers, Glfw PollEvents]"
    using disabled_frame_keeps_model [where e = ideal_env and p = 8 and s = ?s2 and evs = "[]"]
      off2
    by blast
  then have d: "Loc (UniformMatrix4fv 0 False (Rotation 0 (0, 0, 1))) \<in>
      set (trace (frame ideal_env 8 [] ?s2))"
    unfolding m2 by (simp add: ideal_env_def)
  from a b c d show ?thesis
    by (intro conjI)
qed

end
